theory Spec2Isabelle
  imports Main
begin

section \<open>The platform: errors, file status, the file system, path joining\<close>

text \<open>
  An error object as the callbacks of \<^verbatim>\<open>fs\<close> and of the collaborators deliver it.
  System errors carry a \<^verbatim>\<open>code\<close> (\<^verbatim>\<open>'ENOENT'\<close>, \<^verbatim>\<open>'EACCES'\<close>, ...); an error
  made with \<^verbatim>\<open>new Error(msg)\<close> has none.
\<close>

datatype error = Error (code: "string option") (message: string)

text \<open>
  \<^verbatim>\<open>fs.Stats\<close>: the file type bits are one of eight kinds, which the predicates
  \<^verbatim>\<open>isFile()\<close>, \<^verbatim>\<open>isDirectory()\<close>, ... test; \<^verbatim>\<open>mtime\<close> is kept as milliseconds
  since the epoch.
\<close>

datatype file_kind =
  RegularFile | Directory | BlockDevice | CharacterDevice | SymbolicLink | FIFO | Socket
  | OtherKind

record stats =
  kind :: file_kind
  mtime :: int
  size_bytes :: nat

definition isFile :: "stats \<Rightarrow> bool" where
  "isFile st = (kind st = RegularFile)"

definition isDirectory :: "stats \<Rightarrow> bool" where
  "isDirectory st = (kind st = Directory)"

definition isBlockDevice :: "stats \<Rightarrow> bool" where
  "isBlockDevice st = (kind st = BlockDevice)"

definition isCharacterDevice :: "stats \<Rightarrow> bool" where
  "isCharacterDevice st = (kind st = CharacterDevice)"

definition isSymbolicLink :: "stats \<Rightarrow> bool" where
  "isSymbolicLink st = (kind st = SymbolicLink)"

definition isFIFO :: "stats \<Rightarrow> bool" where
  "isFIFO st = (kind st = FIFO)"

definition isSocket :: "stats \<Rightarrow> bool" where
  "isSocket st = (kind st = Socket)"

text \<open>
  The file system as the program observes it. A node callback \<^verbatim>\<open>(error, value)\<close>
  carries either the error or the value, hence the sum type (\<open>Inl\<close> is the error).
  \<^verbatim>\<open>stat\<close> follows symbolic links, \<^verbatim>\<open>lstat\<close> does not. The file system answers the
  same question the same way during one request, except across a tarball fetch, which
  returns the new file system.
\<close>

record filesystem =
  stat :: "string \<Rightarrow> error + stats"
  lstat :: "string \<Rightarrow> error + stats"
  readdir :: "string \<Rightarrow> error + string list"
  readFile :: "string \<Rightarrow> error + string"

text \<open>
  \<^verbatim>\<open>path.join\<close> of node's POSIX \<^verbatim>\<open>path\<close> module (imported as \<^verbatim>\<open>joinPaths\<close>): the
  non-empty arguments are joined with \<^verbatim>\<open>/\<close> and the result is normalised: empty and
  \<^verbatim>\<open>.\<close> segments are dropped, \<^verbatim>\<open>..\<close> removes the segment before it (and is kept
  only at the start of a relative path), a trailing slash is preserved.
\<close>

fun splitOn :: "char \<Rightarrow> string \<Rightarrow> string list" where
  "splitOn c [] = [[]]"
| "splitOn c (x # xs) =
     (if x = c then [] # splitOn c xs
      else (case splitOn c xs of [] \<Rightarrow> [[x]] | s # ss \<Rightarrow> (x # s) # ss))"

fun joinWith :: "string \<Rightarrow> string list \<Rightarrow> string" where
  "joinWith sep [] = []"
| "joinWith sep [s] = s"
| "joinWith sep (s # t # ss) = s @ sep @ joinWith sep (t # ss)"

fun normalizeSegments :: "bool \<Rightarrow> string list \<Rightarrow> string list \<Rightarrow> string list" where
  "normalizeSegments allowAboveRoot res [] = rev res"
| "normalizeSegments allowAboveRoot res (seg # segs) =
     (if seg = [] \<or> seg = ''.'' then normalizeSegments allowAboveRoot res segs
      else if seg = ''..'' then
        (case res of
           [] \<Rightarrow>
             normalizeSegments allowAboveRoot (if allowAboveRoot then [''..''] else []) segs
         | r # rs \<Rightarrow>
             if r \<noteq> ''..'' then normalizeSegments allowAboveRoot rs segs
             else normalizeSegments allowAboveRoot
                    (if allowAboveRoot then ''..'' # res else res) segs)
      else normalizeSegments allowAboveRoot (seg # res) segs)"

definition normalize :: "string \<Rightarrow> string" where
  "normalize path =
     (if path = [] then ''.''
      else
        let isAbsolute = (hd path = CHR ''/'');
            trailingSeparator = (last path = CHR ''/'');
            p = joinWith ''/'' (normalizeSegments (\<not> isAbsolute) [] (splitOn CHR ''/'' path))
        in if p = [] then (if isAbsolute then ''/'' else if trailingSeparator then ''./'' else ''.'')
           else (if isAbsolute then ''/'' else []) @ p @ (if trailingSeparator then ''/'' else []))"

definition joinPaths :: "string \<Rightarrow> string \<Rightarrow> string" where
  "joinPaths a b =
     (let args = filter (\<lambda>arg. arg \<noteq> []) [a, b]
      in if args = [] then ''.'' else normalize (joinWith ''/'' args))"

section \<open>The cache gate and the file resolver (modules/index.js)\<close>

text \<open>
  \<^verbatim>\<open>checkLocalCache\<close> calls back with \<^verbatim>\<open>stats && stats.isFile()\<close>; the error of the
  stat is not looked at, and without stats the value is falsy.
\<close>

definition checkLocalCache :: "filesystem \<Rightarrow> string \<Rightarrow> bool" where
  "checkLocalCache fs dir =
     (case stat fs (joinPaths dir ''package.json'') of
        Inl error \<Rightarrow> False
      | Inr stats \<Rightarrow> isFile stats)"

definition ResolveExtensions :: "string list" where
  "ResolveExtensions = ['''', ''.js'', ''.json'']"

text \<open>
  \<^verbatim>\<open>resolveFile(file, useIndex, callback)\<close>. The source builds, with \<^verbatim>\<open>reduceRight\<close>
  from the initial value \<^verbatim>\<open>callback\<close>, one closure per extension whose \<^verbatim>\<open>next\<close> is
  the closure of the extension after it, and calls the first. The model folds the same
  way over the same list: \<open>next\<close> is the result of the rest of the chain, and the final
  \<^verbatim>\<open>callback()\<close> without arguments is \<open>Inr None\<close>. \<^verbatim>\<open>callback(error)\<close> is \<open>Inl error\<close>,
  \<^verbatim>\<open>callback(null, filename)\<close> is \<open>Inr (Some filename)\<close>. The test \<^verbatim>\<open>if (indexFile)\<close>
  is a truthiness test: the empty string fails it.
\<close>

function resolveFile :: "filesystem \<Rightarrow> string \<Rightarrow> bool \<Rightarrow> error + string option" where
  "resolveFile fs file useIndex =
     foldr (\<lambda>ext next.
        let filename = file @ ext in
        (case stat fs filename of
           Inr stats \<Rightarrow>
             if isFile stats then Inr (Some filename)
             else if useIndex \<and> isDirectory stats then
               (case resolveFile fs (joinPaths filename ''index'') False of
                  Inl error \<Rightarrow> Inl error
                | Inr (Some indexFile) \<Rightarrow> if indexFile \<noteq> [] then Inr (Some indexFile) else next
                | Inr None \<Rightarrow> next)
             else next
         | Inl error \<Rightarrow>
             if code error \<noteq> Some ''ENOENT'' then Inl error else next))
       ResolveExtensions (Inr None)"
  by pat_completeness auto
termination
  by (relation "measure (\<lambda>(fs, file, useIndex). if useIndex then 1 else 0)") auto

declare resolveFile.simps [simp del]

text \<open>
  The closure \<^verbatim>\<open>reduceRight\<close> builds for one extension, by name: what the chain does at
  the candidate \<open>file @ ext\<close> when \<open>next\<close> is the result of the candidates after it.
\<close>

definition tryExtension ::
  "filesystem \<Rightarrow> string \<Rightarrow> bool \<Rightarrow> string \<Rightarrow> error + string option \<Rightarrow> error + string option" where
  "tryExtension fs file useIndex ext next =
     (let filename = file @ ext in
      (case stat fs filename of
         Inr stats \<Rightarrow>
           if isFile stats then Inr (Some filename)
           else if useIndex \<and> isDirectory stats then
             (case resolveFile fs (joinPaths filename ''index'') False of
                Inl error \<Rightarrow> Inl error
              | Inr (Some indexFile) \<Rightarrow> if indexFile \<noteq> [] then Inr (Some indexFile) else next
              | Inr None \<Rightarrow> next)
           else next
       | Inl error \<Rightarrow>
           if code error \<noteq> Some ''ENOENT'' then Inl error else next))"

text \<open>
  What a path is on disk, as \<^verbatim>\<open>stat\<close> tells: a regular file, a directory (and so
  not a regular file), or nothing (the stat fails with \<^verbatim>\<open>ENOENT\<close>).
\<close>

definition existsAsFile :: "filesystem \<Rightarrow> string \<Rightarrow> bool" where
  "existsAsFile fs p = (case stat fs p of Inl error \<Rightarrow> False | Inr stats \<Rightarrow> isFile stats)"

definition existsAsDirectory :: "filesystem \<Rightarrow> string \<Rightarrow> bool" where
  "existsAsDirectory fs p =
     (case stat fs p of Inl error \<Rightarrow> False | Inr stats \<Rightarrow> \<not> isFile stats \<and> isDirectory stats)"

definition doesNotExist :: "filesystem \<Rightarrow> string \<Rightarrow> bool" where
  "doesNotExist fs p =
     (case stat fs p of Inl error \<Rightarrow> code error = Some ''ENOENT'' | Inr stats \<Rightarrow> False)"

text \<open>
  A candidate the chain passes over: it does not exist, or it is there but is not a
  regular file and, when the index fallback is on and it is a directory, the lookup of
  its index file finds nothing.
\<close>

definition passedOver :: "filesystem \<Rightarrow> bool \<Rightarrow> string \<Rightarrow> bool" where
  "passedOver fs useIndex p =
     (case stat fs p of
        Inl error \<Rightarrow> code error = Some ''ENOENT''
      | Inr stats \<Rightarrow>
          \<not> isFile stats \<and>
          (if useIndex \<and> isDirectory stats
           then resolveFile fs (joinPaths p ''index'') False = Inr None
           else True))"

section \<open>Collaborators and their data\<close>

text \<open>
  Collaborators of the tree builder and of the request handler. They are code of other
  modules and libraries, so the functions below take them as parameters:
  \<^verbatim>\<open>getContentType\<close> (ResponseUtils), \<^verbatim>\<open>Date.prototype.toISOString\<close>,
  \<^verbatim>\<open>parsePackageURL\<close> and \<^verbatim>\<open>createPackageURL\<close> (PackageUtils), \<^verbatim>\<open>getPackageInfo\<close>
  (RegistryUtils), \<^verbatim>\<open>getPackage\<close> (PackageUtils, which extracts the tarball and so
  returns the new file system), \<^verbatim>\<open>createBowerPackage\<close> (BowerUtils),
  \<^verbatim>\<open>maxSatisfying\<close> (semver), \<^verbatim>\<open>JSON.parse\<close> and the cache root \<^verbatim>\<open>TmpDir\<close>.
\<close>

text \<open>
  A JSON value; numbers are kept as integers, since only the truthiness of a value and
  whether it is a string matter to the handler. \<^verbatim>\<open>JSON.parse\<close> of a package manifest
  is taken to be an object.
\<close>

datatype json =
  JNull | JBool bool | JNumber int | JString string | JArray "json list"
  | JObject "(string \<times> json) list"

text \<open>
  A property read \<^verbatim>\<open>object[key]\<close> on an object that \<^verbatim>\<open>JSON.parse\<close> has built: the value
  of the object's own property of this name; or, for a name of \<^verbatim>\<open>Object.prototype\<close>, the
  value inherited from it (a function, or the prototype itself for \<^verbatim>\<open>__proto__\<close>: truthy,
  not a string, and without a property \<^verbatim>\<open>dist\<close>); or \<^verbatim>\<open>undefined\<close>. The test
  \<^verbatim>\<open>key in object\<close> holds in the first two cases. An object is the list of its own
  properties, whose names are distinct.
\<close>

definition ObjectPrototype :: "string list" where
  "ObjectPrototype =
     [''constructor'', ''__defineGetter__'', ''__defineSetter__'', ''hasOwnProperty'',
      ''__lookupGetter__'', ''__lookupSetter__'', ''isPrototypeOf'', ''propertyIsEnumerable'',
      ''toString'', ''valueOf'', ''__proto__'', ''toLocaleString'']"

datatype 'a property = Own 'a | Inherited | Missing

definition getProperty :: "(string \<times> 'a) list \<Rightarrow> string \<Rightarrow> 'a property" where
  "getProperty object key =
     (case map_of object key of
        Some v \<Rightarrow> Own v
      | None \<Rightarrow> if key \<in> set ObjectPrototype then Inherited else Missing)"

record package_url =
  packageName :: string
  version :: string
  filename :: string
  search :: string

text \<open>
  The registry's answer (\<^verbatim>\<open>response.status\<close>, \<^verbatim>\<open>response.jsonData\<close>). The handler
  tests \<^verbatim>\<open>info == null\<close> and \<^verbatim>\<open>info.versions == null\<close>, so both are optional here;
  \<^verbatim>\<open>dist-tags\<close> may be missing as well. \<^verbatim>\<open>versions\<close> and \<^verbatim>\<open>dist-tags\<close> are
  objects, and each version's manifest has \<^verbatim>\<open>dist.tarball\<close>.
\<close>

record version_config =
  dist_tarball :: string

record package_info =
  versions :: "(string \<times> version_config) list option"
  dist_tags :: "(string \<times> string) list option"

record registry_response =
  status :: nat
  jsonData :: "package_info option"

record env =
  TmpDir :: string
  parsePackageURL :: "string \<Rightarrow> package_url option"
  createPackageURL :: "string \<Rightarrow> string \<Rightarrow> string \<Rightarrow> string \<Rightarrow> string"
  getPackageInfo :: "string \<Rightarrow> string \<Rightarrow> error + registry_response"
  getPackage :: "string \<Rightarrow> string \<Rightarrow> filesystem \<Rightarrow> error option \<times> filesystem"
  createBowerPackage :: "string \<Rightarrow> filesystem \<Rightarrow> (error + string option) \<times> filesystem"
  maxSatisfyingVersion :: "string list \<Rightarrow> string \<Rightarrow> string option"
  parseJSON :: "string \<Rightarrow> string + (string \<times> json) list"
  getContentType :: "string \<Rightarrow> string"
  toISOString :: "int \<Rightarrow> string"

section \<open>The directory tree builder (modules/TreeUtils.js)\<close>

text \<open>
  A node of the tree. The object literal of \<^verbatim>\<open>resolveDirectory\<close> always has the key
  \<^verbatim>\<open>children\<close>, whose value is \<^verbatim>\<open>null\<close> or the array of the entries below; the
  literal of \<^verbatim>\<open>resolveEntry\<close> for anything else has no such key.
\<close>

datatype 'a children_field = Absent | Null | Children "'a list"

datatype entry =
  Entry (path: string) (lastModified: string) (mime: string) (entry_size: nat)
    (entry_type: string) (children: "entry children_field")

definition getType :: "stats \<Rightarrow> string" where
  "getType stats =
     (if isFile stats then ''file''
      else if isDirectory stats then ''directory''
      else if isBlockDevice stats then ''blockDevice''
      else if isCharacterDevice stats then ''characterDevice''
      else if isSymbolicLink stats then ''symlink''
      else if isFIFO stats then ''fifo''
      else if isSocket stats then ''socket''
      else ''unknown'')"

text \<open>
  \<^verbatim>\<open>maximumDepth\<close> is a number: an integer, or \<^verbatim>\<open>Number.MAX_VALUE\<close>, the handler's
  default, for which \<^verbatim>\<open>maximumDepth - 1\<close> is \<^verbatim>\<open>maximumDepth\<close> again in double
  arithmetic.
\<close>

datatype depth = Finite int | MAX_VALUE

fun positive :: "depth \<Rightarrow> bool" where
  "positive (Finite n) = (n > 0)"
| "positive MAX_VALUE = True"

fun minus_one :: "depth \<Rightarrow> depth" where
  "minus_one (Finite n) = Finite (n - 1)"
| "minus_one MAX_VALUE = MAX_VALUE"

text \<open>
  A promise is settled with a value, rejected with an error, or not settled.
  \<^verbatim>\<open>Promise.all\<close> rejects as soon as one of its promises rejects (the first in
  listing order here, where the source leaves it to timing), and settles with all the
  values, in order, once every promise has settled.
\<close>

datatype 'a promise = Pending | Rejected error | Resolved 'a

definition then_promise :: "'a promise \<Rightarrow> ('a \<Rightarrow> 'b promise) \<Rightarrow> 'b promise" where
  "then_promise p f =
     (case p of Pending \<Rightarrow> Pending | Rejected error \<Rightarrow> Rejected error | Resolved x \<Rightarrow> f x)"

fun promiseAll :: "'a promise list \<Rightarrow> 'a list promise" where
  "promiseAll [] = Resolved []"
| "promiseAll (p # ps) =
     (case p of
        Rejected error \<Rightarrow> Rejected error
      | Pending \<Rightarrow> (case promiseAll ps of Rejected error \<Rightarrow> Rejected error | _ \<Rightarrow> Pending)
      | Resolved x \<Rightarrow>
          (case promiseAll ps of
             Rejected error \<Rightarrow> Rejected error
           | Pending \<Rightarrow> Pending
           | Resolved xs \<Rightarrow> Resolved (x # xs)))"

definition getStats :: "filesystem \<Rightarrow> string \<Rightarrow> stats promise" where
  "getStats fs file =
     (case lstat fs file of Inl error \<Rightarrow> Rejected error | Inr stats \<Rightarrow> Resolved stats)"

text \<open>
  \<^verbatim>\<open>resolveDirectory\<close> and \<^verbatim>\<open>resolveEntry\<close> call \<^verbatim>\<open>getEntries\<close>, which calls them
  for every entry. With the default depth the walk is bounded only by the file system, so
  \<open>getEntries\<close> takes fuel, one unit for each level of directories read, and \<open>Pending\<close>
  is also the walk that has not finished within the fuel. The two functions receive, as
  \<open>getEntries'\<close>, \<open>getEntries\<close> with the fuel that is left.
\<close>

definition resolveDirectory ::
  "(string \<Rightarrow> string \<Rightarrow> depth \<Rightarrow> entry list promise) \<Rightarrow> env \<Rightarrow> string \<Rightarrow> string \<Rightarrow> stats
     \<Rightarrow> depth \<Rightarrow> entry promise" where
  "resolveDirectory getEntries' e baseDir pathname stats maximumDepth =
     then_promise
       (if positive maximumDepth
        then then_promise (getEntries' baseDir pathname (minus_one maximumDepth))
               (\<lambda>entries. Resolved (Children entries))
        else Resolved Null)
       (\<lambda>children'.
          Resolved (Entry pathname (toISOString e (mtime stats)) (getContentType e pathname)
                      (size_bytes stats) (getType stats) children'))"

definition resolveEntry ::
  "(string \<Rightarrow> string \<Rightarrow> depth \<Rightarrow> entry list promise) \<Rightarrow> env \<Rightarrow> string \<Rightarrow> string \<Rightarrow> stats
     \<Rightarrow> depth \<Rightarrow> entry promise" where
  "resolveEntry getEntries' e baseDir pathname stats maximumDepth =
     (if isDirectory stats
      then resolveDirectory getEntries' e baseDir pathname stats maximumDepth
      else Resolved (Entry pathname (toISOString e (mtime stats)) (getContentType e pathname)
                       (size_bytes stats) (getType stats) Absent))"

text \<open>
  \<^verbatim>\<open>statsArray.map((stats, index) => ... files[index] ...)\<close> pairs each name of the
  listing with its stats; \<open>zip\<close> is that pairing.
\<close>

primrec getEntries ::
  "nat \<Rightarrow> env \<Rightarrow> filesystem \<Rightarrow> string \<Rightarrow> string \<Rightarrow> depth \<Rightarrow> entry list promise" where
  "getEntries 0 e fs baseDir name maximumDepth = Pending"
| "getEntries (Suc fuel) e fs baseDir name maximumDepth =
     (let dir = joinPaths baseDir name in
      case readdir fs dir of
        Inl error \<Rightarrow> Rejected error
      | Inr files \<Rightarrow>
          then_promise (promiseAll (map (\<lambda>file. getStats fs (joinPaths dir file)) files))
            (\<lambda>statsArray.
               promiseAll
                 (map (\<lambda>(file, stats).
                         resolveEntry (getEntries fuel e fs) e baseDir (joinPaths name file)
                           stats maximumDepth)
                    (zip files statsArray))))"

definition generateDirectoryTree ::
  "nat \<Rightarrow> env \<Rightarrow> filesystem \<Rightarrow> string \<Rightarrow> string \<Rightarrow> depth \<Rightarrow> entry list promise" where
  "generateDirectoryTree fuel e fs baseDir dir maximumDepth =
     getEntries fuel e fs baseDir dir maximumDepth"

section \<open>The request handler (modules/index.js)\<close>

text \<open>
  The options of \<^verbatim>\<open>createRequestHandler\<close>, each of which may be missing, and the
  constants the handler computes from them.
\<close>

record options =
  registryURL_option :: "string option"
  bowerBundle_option :: "string option"
  redirectTTL_option :: "int option"
  autoIndex_option :: "bool option"
  maximumDepth_option :: "int option"

record settings =
  registryURL :: string
  bowerBundle :: string
  redirectTTL :: int
  autoIndex :: bool
  maximumDepth :: depth

text \<open>
  The request as the handler reads it: \<^verbatim>\<open>req.url\<close>, \<^verbatim>\<open>req.originalUrl\<close> (which the
  connect-style wrapper sets before it rewrites \<^verbatim>\<open>req.url\<close>) and \<^verbatim>\<open>req.query\<close>, which
  may be missing.
\<close>

record request =
  url :: string
  originalUrl :: string
  query :: "(string \<times> string) list option"

text \<open>
  What a request ends in: one call of a helper of ResponseUtils, an uncaught
  \<^verbatim>\<open>TypeError\<close>, or no response (the tree walk has not settled).
\<close>

datatype outcome =
  SendNotFoundError string
  | SendInvalidURLError string
  | SendServerError "error + string"
  | SendRedirect string int
  | SendFile string nat
  | SendText nat string
  | SendJSON "entry list" nat
  | UncaughtTypeError
  | NoResponse

definition OneMinute :: nat where
  "OneMinute = 60"

definition OneDay :: nat where
  "OneDay = OneMinute * 60 * 24"

definition OneYear :: nat where
  "OneYear = OneDay * 365"

text \<open>\<^verbatim>\<open>s.slice(0, end)\<close>: a negative \<^verbatim>\<open>end\<close> counts from the end of the string.\<close>

definition slice0 :: "string \<Rightarrow> int \<Rightarrow> string" where
  "slice0 s end' =
     (let len = int (length s);
          to = (if end' < 0 then max (len + end') 0 else min end' len)
      in take (nat to) s)"

text \<open>Truthiness of a JSON value, as \<^verbatim>\<open>||\<close> tests it.\<close>

fun truthy :: "json \<Rightarrow> bool" where
  "truthy JNull = False"
| "truthy (JBool b) = b"
| "truthy (JNumber n) = (n \<noteq> 0)"
| "truthy (JString s) = (s \<noteq> [])"
| "truthy (JArray xs) = True"
| "truthy (JObject kvs) = True"

text \<open>
  The constants of one call of \<^verbatim>\<open>handleRequest\<close>: \<^verbatim>\<open>baseUrl\<close>, \<^verbatim>\<open>displayName\<close>,
  \<^verbatim>\<open>tarballDir\<close>, and \<^verbatim>\<open>queryMain\<close> (\<^verbatim>\<open>req.query && req.query.main\<close>, where a missing
  value is as falsy as the empty string).
\<close>

definition baseUrl :: "request \<Rightarrow> string" where
  "baseUrl req =
     slice0 (originalUrl req) (int (length (originalUrl req)) - int (length (url req)))"

definition displayName :: "package_url \<Rightarrow> string" where
  "displayName u = packageName u @ ''@'' @ version u"

definition tarballDir :: "env \<Rightarrow> package_url \<Rightarrow> string" where
  "tarballDir e u = joinPaths (TmpDir e) (packageName u @ ''-'' @ version u)"

definition queryMain :: "request \<Rightarrow> string" where
  "queryMain req =
     (case query req of
        None \<Rightarrow> []
      | Some q \<Rightarrow> (case map_of q ''main'' of None \<Rightarrow> [] | Some m \<Rightarrow> m))"

text \<open>
  The callback of \<^verbatim>\<open>statFile(filepath, ...)\<close> in \<^verbatim>\<open>serveFile\<close>, reached when the file
  resolver found nothing and \<^verbatim>\<open>autoIndex\<close> is on.
\<close>

definition serveIndex ::
  "nat \<Rightarrow> env \<Rightarrow> settings \<Rightarrow> filesystem \<Rightarrow> request \<Rightarrow> package_url \<Rightarrow> outcome" where
  \<open>serveIndex fuel e s fs req u =
     (let filepath = joinPaths (tarballDir e u) (filename u)
      in case stat fs filepath of
           Inr stats \<Rightarrow>
             if isDirectory stats then
               (if url req = [] \<or> last (url req) \<noteq> CHR ''/''
                then SendRedirect (baseUrl req @ ''/'') (redirectTTL s)
                else (case generateDirectoryTree fuel e fs (tarballDir e u) (filename u)
                             (maximumDepth s) of
                        Resolved json \<Rightarrow> SendJSON json OneYear
                      | Rejected error \<Rightarrow>
                          SendServerError
                            (Inr (''unable to generate index json for '' @ displayName u
                                    @ filename u))
                      | Pending \<Rightarrow> NoResponse))
             else SendNotFoundError
                    (''file "'' @ filename u @ ''" in package '' @ displayName u)
         | Inl error \<Rightarrow>
             SendNotFoundError (''file "'' @ filename u @ ''" in package '' @ displayName u))\<close>

text \<open>
  \<^verbatim>\<open>serveFile\<close>, the closure of \<^verbatim>\<open>handleRequest\<close> over the request and the parsed URL.
  It returns the file system as well, which only the bundle builder may change. An
  entry that is truthy and not a string (a manifest value of another type, or a value
  inherited from \<^verbatim>\<open>Object.prototype\<close>) reaches \<^verbatim>\<open>joinPaths\<close>, which throws a
  \<^verbatim>\<open>TypeError\<close> for it.
\<close>

definition serveFile ::
  "nat \<Rightarrow> env \<Rightarrow> settings \<Rightarrow> filesystem \<Rightarrow> request \<Rightarrow> package_url \<Rightarrow> outcome \<times> filesystem" where
  \<open>serveFile fuel e s fs req u =
     (if filename u = bowerBundle s then
        (case createBowerPackage e (tarballDir e u) fs of
           (Inl error, fs') \<Rightarrow> (SendServerError (Inl error), fs')
         | (Inr None, fs') \<Rightarrow>
             (SendNotFoundError (''bower.zip in package '' @ displayName u), fs')
         | (Inr (Some file), fs') \<Rightarrow> (SendFile file OneYear, fs'))
      else if filename u \<noteq> [] then
        (let filepath = joinPaths (tarballDir e u) (filename u);
             notFound = (if autoIndex s then serveIndex fuel e s fs req u
                         else SendNotFoundError
                                (''file "'' @ filename u @ ''" in package '' @ displayName u))
         in case resolveFile fs filepath False of
              Inl error \<Rightarrow> (SendServerError (Inl error), fs)
            | Inr (Some file) \<Rightarrow> (if file \<noteq> [] then SendFile file OneYear else notFound, fs)
            | Inr None \<Rightarrow> (notFound, fs))
      else
        (case readFile fs (joinPaths (tarballDir e u) ''package.json'') of
           Inl error \<Rightarrow> (SendServerError (Inl error), fs)
         | Inr data \<Rightarrow>
             (case parseJSON e data of
                Inl msg \<Rightarrow> (SendText 500 (''Error parsing package.json: '' @ msg), fs)
              | Inr packageConfig \<Rightarrow>
                  if queryMain req \<noteq> [] \<and> getProperty packageConfig (queryMain req) = Missing
                  then
                    (SendNotFoundError
                       (''field "'' @ queryMain req @ ''" in package.json of ''
                          @ packageName u @ ''@'' @ version u), fs)
                  else
                    (let mainProperty = (if queryMain req \<noteq> [] then queryMain req else ''main'');
                         mainFilename =
                           (case getProperty packageConfig mainProperty of
                              Own v \<Rightarrow> if truthy v then Own v else Own (JString ''index'')
                            | Inherited \<Rightarrow> Inherited
                            | Missing \<Rightarrow> Own (JString ''index''))
                     in case mainFilename of
                          Own (JString mainFile) \<Rightarrow>
                            (case resolveFile fs (joinPaths (tarballDir e u) mainFile) True of
                               Inl error \<Rightarrow> (SendServerError (Inl error), fs)
                             | Inr None \<Rightarrow>
                                 (SendNotFoundError
                                    (''main file "'' @ mainFile @ ''" in package ''
                                       @ packageName u @ ''@'' @ version u), fs)
                             | Inr (Some file) \<Rightarrow> (SendFile file OneYear, fs))
                        | _ \<Rightarrow> (UncaughtTypeError, fs)))))\<close>

text \<open>
  The callback of \<^verbatim>\<open>getPackageInfo\<close>, reached when the package is not in the cache.
  \<^verbatim>\<open>version in versions\<close> holds for an own property and for an inherited name; for an
  inherited name \<^verbatim>\<open>versions[version]\<close> has no \<^verbatim>\<open>dist\<close>, and \<^verbatim>\<open>packageConfig.dist.tarball\<close>
  throws a \<^verbatim>\<open>TypeError\<close>. Where \<^verbatim>\<open>version in versions\<close> is false the token is none of the
  inherited names, so that \<^verbatim>\<open>version in tags\<close> and \<^verbatim>\<open>tags[version]\<close> are the lookup among
  the own properties of \<^verbatim>\<open>tags\<close>; without \<^verbatim>\<open>dist-tags\<close> in the answer, \<^verbatim>\<open>version in tags\<close>
  throws a \<^verbatim>\<open>TypeError\<close>. \<^verbatim>\<open>if (maxVersion)\<close> is a truthiness test.
\<close>

definition fetchPackageInfo ::
  "nat \<Rightarrow> env \<Rightarrow> settings \<Rightarrow> filesystem \<Rightarrow> request \<Rightarrow> package_url \<Rightarrow> outcome \<times> filesystem" where
  \<open>fetchPackageInfo fuel e s fs req u =
     (case getPackageInfo e (registryURL s) (packageName u) of
        Inl error \<Rightarrow> (SendServerError (Inl error), fs)
      | Inr response \<Rightarrow>
          if status response = 404 then
            (SendNotFoundError (''package "'' @ packageName u @ ''"''), fs)
          else
            (case (case jsonData response of
                     None \<Rightarrow> None
                   | Some info \<Rightarrow>
                       (case versions info of
                          None \<Rightarrow> None
                        | Some versions' \<Rightarrow> Some (versions', dist_tags info))) of
               None \<Rightarrow>
                 (SendServerError
                    (Inl (Error None (''Unable to retrieve info for package '' @ packageName u))),
                  fs)
             | Some (versions', tags) \<Rightarrow>
                 (case getProperty versions' (version u) of
                    Own packageConfig \<Rightarrow>
                      (case getPackage e (dist_tarball packageConfig) (tarballDir e u) fs of
                         (Some error, fs') \<Rightarrow> (SendServerError (Inl error), fs')
                       | (None, fs') \<Rightarrow> serveFile fuel e s fs' req u)
                  | Inherited \<Rightarrow> (UncaughtTypeError, fs)
                  | Missing \<Rightarrow>
                      (case tags of
                         None \<Rightarrow> (UncaughtTypeError, fs)
                       | Some tags' \<Rightarrow>
                           (case map_of tags' (version u) of
                              Some tagVersion \<Rightarrow>
                                (SendRedirect
                                   (baseUrl req @ createPackageURL e (packageName u) tagVersion
                                      (filename u) (search u))
                                   (redirectTTL s), fs)
                            | None \<Rightarrow>
                                (case maxSatisfyingVersion e (map fst versions') (version u) of
                                   Some maxVersion \<Rightarrow>
                                     if maxVersion \<noteq> [] then
                                       (SendRedirect
                                          (baseUrl req @ createPackageURL e (packageName u)
                                             maxVersion (filename u) (search u))
                                          (redirectTTL s), fs)
                                     else
                                       (SendNotFoundError
                                          (''package '' @ packageName u @ ''@'' @ version u), fs)
                                 | None \<Rightarrow>
                                     (SendNotFoundError
                                        (''package '' @ packageName u @ ''@'' @ version u),
                                      fs)))))))\<close>

text \<open>\<^verbatim>\<open>handleRequest\<close>. The call of \<^verbatim>\<open>console.log\<close> is left out.\<close>

definition handleRequest ::
  "nat \<Rightarrow> env \<Rightarrow> settings \<Rightarrow> filesystem \<Rightarrow> request \<Rightarrow> outcome \<times> filesystem" where
  "handleRequest fuel e s fs req =
     (case parsePackageURL e (url req) of
        None \<Rightarrow> (SendInvalidURLError (url req), fs)
      | Some u \<Rightarrow>
          if checkLocalCache fs (tarballDir e u) then serveFile fuel e s fs req u
          else fetchPackageInfo fuel e s fs req u)"

definition createRequestHandler ::
  "options \<Rightarrow> nat \<Rightarrow> env \<Rightarrow> filesystem \<Rightarrow> request \<Rightarrow> outcome \<times> filesystem" where
  "createRequestHandler opts fuel e fs req =
     handleRequest fuel e
       \<lparr>registryURL = (case registryURL_option opts of
                         None \<Rightarrow> ''https://registry.npmjs.org''
                       | Some r \<Rightarrow> if r \<noteq> [] then r else ''https://registry.npmjs.org''),
        bowerBundle = (case bowerBundle_option opts of
                         None \<Rightarrow> ''/bower.zip''
                       | Some b \<Rightarrow> if b \<noteq> [] then b else ''/bower.zip''),
        redirectTTL = (case redirectTTL_option opts of None \<Rightarrow> 0 | Some t \<Rightarrow> t),
        autoIndex = (autoIndex_option opts \<noteq> Some False),
        maximumDepth = (case maximumDepth_option opts of
                          None \<Rightarrow> MAX_VALUE
                        | Some d \<Rightarrow> if d \<noteq> 0 then Finite d else MAX_VALUE)\<rparr>
       fs req"

section \<open>Collaborators that are not among the sources\<close>

text \<open>
  Modelled from the spec: \<^verbatim>\<open>createPackageURL\<close> of modules/PackageUtils.js, which is not
  among the sources. The spec's grammar of a package URL is
  \<^verbatim>\<open>/ name [@ versionToken] [/ filename...] [? query]\<close>, and the redirect target is "the
  canonical URL built from the tag's resolved exact version, same filename and search".
\<close>

definition createPackageURL_spec :: "string \<Rightarrow> string \<Rightarrow> string \<Rightarrow> string \<Rightarrow> string" where
  "createPackageURL_spec name ver file query' = ''/'' @ name @ ''@'' @ ver @ file @ query'"

text \<open>
  Modelled from the spec: \<^verbatim>\<open>parsePackageURL\<close> of modules/PackageUtils.js, which is not
  among the sources. After the leading slash comes the package segment, which for a
  scoped name (\<^verbatim>\<open>@scope/name\<close>) spans two path segments; the version separator is the
  last \<^verbatim>\<open>@\<close> of the package segment that is not its first character, and a missing
  version token is \<^verbatim>\<open>latest\<close>. The filename is everything after the package segment,
  the search is the query string with its question mark. An empty name is invalid.
\<close>

definition splitVersion :: "string \<Rightarrow> string \<times> string option" where
  "splitVersion seg =
     (let afterAt = rev (takeWhile (\<lambda>c. c \<noteq> CHR ''@'') (rev seg));
          upToAt = take (length seg - length afterAt) seg
      in if length upToAt \<le> 1 then (seg, None) else (butlast upToAt, Some afterAt))"

definition parsePackageURL_spec :: "string \<Rightarrow> package_url option" where
  "parsePackageURL_spec raw =
     (let pathname = takeWhile (\<lambda>c. c \<noteq> CHR ''?'') raw;
          query' = dropWhile (\<lambda>c. c \<noteq> CHR ''?'') raw
      in case pathname of
           [] \<Rightarrow> None
         | c # rest \<Rightarrow>
             if c \<noteq> CHR ''/'' then None
             else
               (let first = takeWhile (\<lambda>c. c \<noteq> CHR ''/'') rest;
                    after = dropWhile (\<lambda>c. c \<noteq> CHR ''/'') rest;
                    scoped = (first \<noteq> [] \<and> hd first = CHR ''@'' \<and> after \<noteq> []);
                    seg = (if scoped
                           then first @ ''/'' @ takeWhile (\<lambda>c. c \<noteq> CHR ''/'') (tl after)
                           else first);
                    file = (if scoped then dropWhile (\<lambda>c. c \<noteq> CHR ''/'') (tl after) else after)
                in case splitVersion seg of
                     (name, ver) \<Rightarrow>
                       if name = [] \<or> ver = Some [] then None
                       else Some \<lparr>packageName = name,
                                  version = (case ver of None \<Rightarrow> ''latest'' | Some v \<Rightarrow> v),
                                  filename = file, search = query'\<rparr>))"

section \<open>Example file systems and collaborators\<close>

definition ENOENT :: error where
  "ENOENT = Error (Some ''ENOENT'') ''no such file or directory''"

definition EACCES :: error where
  "EACCES = Error (Some ''EACCES'') ''permission denied''"

text \<open>
  A file system given by a table from paths to what is there; every other path does not
  exist. A directory lists the names recorded for it.
\<close>

definition tableFS ::
  "(string \<times> (error + stats)) list \<Rightarrow> (string \<times> string list) list \<Rightarrow> (string \<times> string) list
     \<Rightarrow> filesystem" where
  "tableFS nodes listings contents =
     \<lparr>stat = (\<lambda>p. case map_of nodes p of None \<Rightarrow> Inl ENOENT | Some r \<Rightarrow> r),
      lstat = (\<lambda>p. case map_of nodes p of None \<Rightarrow> Inl ENOENT | Some r \<Rightarrow> r),
      readdir = (\<lambda>p. case map_of listings p of None \<Rightarrow> Inl ENOENT | Some names \<Rightarrow> Inr names),
      readFile = (\<lambda>p. case map_of contents p of None \<Rightarrow> Inl ENOENT | Some d \<Rightarrow> Inr d)\<rparr>"

definition aFile :: "error + stats" where
  "aFile = Inr \<lparr>kind = RegularFile, mtime = 0, size_bytes = 1\<rparr>"

definition aDirectory :: "error + stats" where
  "aDirectory = Inr \<lparr>kind = Directory, mtime = 0, size_bytes = 0\<rparr>"

text \<open>
  Collaborators for the examples: a registry that knows the package \<^verbatim>\<open>name\<close> with the
  versions 1.0.0, 1.2.0 and 2.0.0 and the tag \<^verbatim>\<open>latest\<close>; a fetcher that never runs
  into an error and extracts a manifest and the file \<^verbatim>\<open>lib/a.js\<close> into the directory it
  is given; and a manifest parser that knows two manifest texts. No example reaches the
  rule for ranges, and the semver collaborator of the example environment is left
  unspecified.
\<close>

definition exampleRegistry :: "string \<Rightarrow> string \<Rightarrow> error + registry_response" where
  "exampleRegistry registry name =
     (if name = ''name'' then
        Inr \<lparr>status = 200,
             jsonData = Some
               \<lparr>versions = Some
                  [(''1.0.0'', \<lparr>dist_tarball = ''https://registry.npmjs.org/name/-/name-1.0.0.tgz''\<rparr>),
                   (''1.2.0'', \<lparr>dist_tarball = ''https://registry.npmjs.org/name/-/name-1.2.0.tgz''\<rparr>),
                   (''2.0.0'', \<lparr>dist_tarball = ''https://registry.npmjs.org/name/-/name-2.0.0.tgz''\<rparr>)],
                dist_tags = Some [(''latest'', ''2.0.0'')]\<rparr>\<rparr>
      else Inr \<lparr>status = 404, jsonData = None\<rparr>)"

definition extractExample :: "string \<Rightarrow> filesystem \<Rightarrow> filesystem" where
  "extractExample dir fs =
     fs\<lparr>stat := (\<lambda>p. if p = joinPaths dir ''package.json'' \<or> p = joinPaths dir ''lib/a.js''
                     then aFile else stat fs p),
        lstat := (\<lambda>p. if p = joinPaths dir ''package.json'' \<or> p = joinPaths dir ''lib/a.js''
                      then aFile else lstat fs p)\<rparr>"

definition exampleEnv :: env where
  \<open>exampleEnv =
     \<lparr>TmpDir = ''/tmp'',
      parsePackageURL = parsePackageURL_spec,
      createPackageURL = createPackageURL_spec,
      getPackageInfo = exampleRegistry,
      getPackage = (\<lambda>tarballURL dir fs. (None, extractExample dir fs)),
      createBowerPackage = (\<lambda>dir fs. (Inr None, fs)),
      maxSatisfyingVersion = undefined,
      parseJSON = (\<lambda>data.
         if data = ''{"main": "lib/foo"}'' then Inr [(''main'', JString ''lib/foo'')]
         else if data = ''{"main": "lib/foo", "browser": {"fs": false}}''
         then Inr [(''main'', JString ''lib/foo''), (''browser'', JObject [(''fs'', JBool False)])]
         else Inl ''Unexpected token''),
      getContentType = (\<lambda>p. ''text/plain''),
      toISOString = (\<lambda>t. ''1970-01-01T00:00:00.000Z'')\<rparr>\<close>

definition exampleSettings :: settings where
  "exampleSettings =
     \<lparr>registryURL = ''https://registry.npmjs.org'', bowerBundle = ''/bower.zip'',
      redirectTTL = 60, autoIndex = True, maximumDepth = MAX_VALUE\<rparr>"

text \<open>File systems and requests of the examples.\<close>

definition jsAndJsonFS :: filesystem where
  "jsAndJsonFS = tableFS [(''/pkg/lib/foo.js'', aFile), (''/pkg/lib/foo.json'', aFile)] [] []"

definition indexOnlyFS :: filesystem where
  "indexOnlyFS = tableFS [(''/pkg/lib'', aDirectory), (''/pkg/lib/index.json'', aFile)] [] []"

definition indexBeforeJsFS :: filesystem where
  "indexBeforeJsFS =
     tableFS [(''/pkg/lib'', aDirectory), (''/pkg/lib/index.js'', aFile), (''/pkg/lib.js'', aFile)]
       [] []"

definition jsDirectoryFS :: filesystem where
  "jsDirectoryFS =
     tableFS [(''/pkg/lib.js'', aDirectory), (''/pkg/lib.js/index.js'', aFile)] [] []"

definition deniedFS :: filesystem where
  "deniedFS = tableFS [(''/pkg/lib/foo'', Inl EACCES), (''/pkg/lib/foo.js'', aFile)] [] []"

definition deniedManifestFS :: filesystem where
  "deniedManifestFS = tableFS [(''/tmp/name-1.0.0/package.json'', Inl EACCES)] [] []"

definition cachedLibFS :: filesystem where
  "cachedLibFS =
     tableFS
       [(''/tmp/name-1.0.0/package.json'', aFile), (''/tmp/name-1.0.0/lib'', aDirectory),
        (''/tmp/name-1.0.0/lib/a.js'', aFile), (''/tmp/name-1.0.0/lib/sub'', aDirectory),
        (''/tmp/name-1.0.0/lib/sub/b.js'', aFile)]
       [(''/tmp/name-1.0.0/lib'', [''a.js'', ''sub'']), (''/tmp/name-1.0.0/lib/sub'', [''b.js''])]
       []"

definition tagDirectoryFS :: filesystem where
  "tagDirectoryFS =
     tableFS
       [(''/tmp/name-latest/package.json'', aFile), (''/tmp/name-latest/lib/foo.js'', aFile)]
       [] []"

definition mainFS :: filesystem where
  \<open>mainFS =
     tableFS
       [(''/tmp/name-1.0.0/package.json'', aFile), (''/tmp/name-1.0.0/lib/foo.js'', aFile)]
       []
       [(''/tmp/name-1.0.0/package.json'', ''{"main": "lib/foo"}'')]\<close>

definition indexBeforeJsonFS :: filesystem where
  "indexBeforeJsonFS =
     tableFS
       [(''/pkg/mod'', aDirectory), (''/pkg/mod/index.json'', aFile), (''/pkg/mod.json'', aFile)]
       [] []"

definition unreadableFS :: filesystem where
  "unreadableFS = tableFS [(''/pkg/mod'', Inl EACCES), (''/pkg/mod.js'', aFile)] [] []"

definition browserFS :: filesystem where
  \<open>browserFS =
     tableFS
       [(''/tmp/name-1.0.0/package.json'', aFile), (''/tmp/name-1.0.0/lib/foo.js'', aFile)]
       []
       [(''/tmp/name-1.0.0/package.json'', ''{"main": "lib/foo", "browser": {"fs": false}}'')]\<close>

definition requestWithMain :: "string \<Rightarrow> string \<Rightarrow> request" where
  "requestWithMain u field = \<lparr>url = u, originalUrl = u, query = Some [(''main'', field)]\<rparr>"

definition emptyFS :: filesystem where
  "emptyFS = tableFS [] [] []"

definition requestOf :: "string \<Rightarrow> request" where
  "requestOf u = \<lparr>url = u, originalUrl = u, query = None\<rparr>"

section \<open>Properties of the file resolver\<close>

lemma resolveFile_foldr:
  "resolveFile fs file useIndex =
     foldr (tryExtension fs file useIndex) ResolveExtensions (Inr None)"
  unfolding tryExtension_def by (rule resolveFile.simps)

lemma resolveFile_chain:
  "resolveFile fs file useIndex =
     tryExtension fs file useIndex []
       (tryExtension fs file useIndex ''.js''
          (tryExtension fs file useIndex ''.json'' (Inr None)))"
  by (simp add: resolveFile_foldr ResolveExtensions_def)

lemma normalize_not_Nil: "normalize p \<noteq> []"
  by (auto simp: normalize_def Let_def)

lemma joinPaths_not_Nil: "joinPaths a b \<noteq> []"
  by (simp add: joinPaths_def Let_def normalize_not_Nil)

lemma tryExtension_file:
  "existsAsFile fs (file @ ext) \<Longrightarrow>
   tryExtension fs file useIndex ext next = Inr (Some (file @ ext))"
  by (auto simp: existsAsFile_def tryExtension_def split: sum.splits)

lemma tryExtension_error:
  "stat fs (file @ ext) = Inl err \<Longrightarrow> code err \<noteq> Some ''ENOENT'' \<Longrightarrow>
   tryExtension fs file useIndex ext next = Inl err"
  by (simp add: tryExtension_def)

lemma tryExtension_Some:
  "tryExtension fs file useIndex ext next = Inr (Some f) \<Longrightarrow>
     (f = file @ ext \<and> existsAsFile fs f)
     \<or> (useIndex \<and> existsAsDirectory fs (file @ ext)
          \<and> resolveFile fs (joinPaths (file @ ext) ''index'') False = Inr (Some f))
     \<or> next = Inr (Some f)"
  by (auto simp: tryExtension_def existsAsFile_def existsAsDirectory_def Let_def
      split: sum.splits if_splits option.splits)

lemma resolveFile_no_index_candidates:
  assumes "resolveFile fs file False = Inr (Some f)"
  shows "f \<in> set (map (\<lambda>ext. file @ ext) ResolveExtensions) \<and> existsAsFile fs f"
proof -
  from assms have "(f = file @ [] \<and> existsAsFile fs f)
      \<or> (f = file @ ''.js'' \<and> existsAsFile fs f) \<or> (f = file @ ''.json'' \<and> existsAsFile fs f)"
    unfolding resolveFile_chain
    by (auto dest!: tryExtension_Some)
  then show ?thesis
    by (auto simp: ResolveExtensions_def)
qed

lemma resolveFile_index_not_Nil:
  "resolveFile fs (joinPaths p q) False \<noteq> Inr (Some [])"
  using resolveFile_no_index_candidates[of fs "joinPaths p q" "[]"] joinPaths_not_Nil[of p q]
  by (auto simp: ResolveExtensions_def)

lemma tryExtension_passed:
  "passedOver fs useIndex (file @ ext) \<Longrightarrow> tryExtension fs file useIndex ext next = next"
  by (auto simp: passedOver_def tryExtension_def split: sum.splits if_splits)

lemma tryExtension_index:
  "existsAsDirectory fs (file @ ext) \<Longrightarrow>
   tryExtension fs file True ext next =
     (case resolveFile fs (joinPaths (file @ ext) ''index'') False of
        Inr None \<Rightarrow> next
      | r \<Rightarrow> r)"
  using resolveFile_index_not_Nil[of fs "file @ ext" "''index''"]
  by (auto simp: existsAsDirectory_def tryExtension_def split: sum.splits option.splits)

text \<open>The chain after \<open>i\<close> candidates that are passed over is the chain of the rest.\<close>

lemma resolveFile_after_passed:
  assumes "i < length ResolveExtensions"
    and "\<forall>j<i. passedOver fs useIndex (file @ ResolveExtensions ! j)"
  shows "resolveFile fs file useIndex =
           foldr (tryExtension fs file useIndex) (drop i ResolveExtensions) (Inr None)"
proof -
  have "i = 0 \<or> i = 1 \<or> i = 2"
    using assms(1) by (auto simp: ResolveExtensions_def)
  moreover have "1 < i \<Longrightarrow> passedOver fs useIndex (file @ ''.js'')"
    using assms(2) by (auto simp: ResolveExtensions_def dest: spec[of _ 1])
  moreover have "0 < i \<Longrightarrow> passedOver fs useIndex (file @ [])"
    using assms(2) by (auto simp: ResolveExtensions_def dest: spec[of _ 0])
  ultimately show ?thesis
    by (auto simp: resolveFile_foldr ResolveExtensions_def tryExtension_passed)
qed

lemma drop_ResolveExtensions:
  "i < length ResolveExtensions \<Longrightarrow>
   drop i ResolveExtensions = ResolveExtensions ! i # drop (Suc i) ResolveExtensions"
  by (simp add: Cons_nth_drop_Suc)

lemma resolveFile_first_file:
  assumes "i < length ResolveExtensions"
    and "\<forall>j<i. passedOver fs useIndex (file @ ResolveExtensions ! j)"
    and "existsAsFile fs (file @ ResolveExtensions ! i)"
  shows "resolveFile fs file useIndex = Inr (Some (file @ ResolveExtensions ! i))"
  using assms
  by (simp add: resolveFile_after_passed drop_ResolveExtensions tryExtension_file)

lemma resolveFile_first_error:
  assumes "i < length ResolveExtensions"
    and "\<forall>j<i. passedOver fs useIndex (file @ ResolveExtensions ! j)"
    and "stat fs (file @ ResolveExtensions ! i) = Inl err" and "code err \<noteq> Some ''ENOENT''"
  shows "resolveFile fs file useIndex = Inl err"
  using assms
  by (simp add: resolveFile_after_passed drop_ResolveExtensions tryExtension_error)

lemma resolveFile_first_directory:
  assumes "i < length ResolveExtensions"
    and "\<forall>j<i. passedOver fs True (file @ ResolveExtensions ! j)"
    and "existsAsDirectory fs (file @ ResolveExtensions ! i)"
    and "resolveFile fs (joinPaths (file @ ResolveExtensions ! i) ''index'') False = r"
    and "r \<noteq> Inr None"
  shows "resolveFile fs file True = r"
  using assms
  by (auto simp add: resolveFile_after_passed drop_ResolveExtensions tryExtension_index
      split: sum.splits option.splits)

lemma resolveFile_Some:
  assumes "resolveFile fs file useIndex = Inr (Some f)"
  shows "\<exists>ext\<in>set ResolveExtensions.
           (f = file @ ext \<and> existsAsFile fs f)
           \<or> (useIndex \<and> existsAsDirectory fs (file @ ext)
                \<and> resolveFile fs (joinPaths (file @ ext) ''index'') False = Inr (Some f))"
proof -
  have "tryExtension fs file useIndex []
          (tryExtension fs file useIndex ''.js''
             (tryExtension fs file useIndex ''.json'' (Inr None))) = Inr (Some f)"
    using assms by (simp only: resolveFile_chain)
  then show ?thesis
    by (auto simp: ResolveExtensions_def dest!: tryExtension_Some)
qed

lemma resolveFile_result_is_file:
  assumes "resolveFile fs file useIndex = Inr (Some f)"
  shows "existsAsFile fs f"
  using resolveFile_Some[OF assms] by (auto dest: resolveFile_no_index_candidates)

lemma tryExtension_None:
  "tryExtension fs file useIndex ext next = Inr None \<Longrightarrow>
     passedOver fs useIndex (file @ ext) \<and> next = Inr None"
  using resolveFile_index_not_Nil[of fs "file @ ext" "''index''"]
  by (auto simp: tryExtension_def passedOver_def Let_def
      split: sum.splits if_splits option.splits)

lemma resolveFile_not_found:
  assumes "resolveFile fs file useIndex = Inr None"
  shows "\<forall>ext\<in>set ResolveExtensions. passedOver fs useIndex (file @ ext)"
proof -
  from assms have "passedOver fs useIndex (file @ []) \<and> passedOver fs useIndex (file @ ''.js'')
      \<and> passedOver fs useIndex (file @ ''.json'')"
    unfolding resolveFile_chain
    by (auto dest!: tryExtension_None)
  then show ?thesis
    by (simp add: ResolveExtensions_def)
qed

lemma passedOver_absent: "doesNotExist fs p \<Longrightarrow> passedOver fs useIndex p"
  by (auto simp: doesNotExist_def passedOver_def split: sum.splits)

lemma passedOver_directory: "existsAsDirectory fs p \<Longrightarrow> passedOver fs False p"
  by (auto simp: existsAsDirectory_def passedOver_def split: sum.splits)

lemma stat_tableFS:
  "stat (tableFS nodes listings contents) p =
     (case map_of nodes p of None \<Rightarrow> Inl ENOENT | Some r \<Rightarrow> r)"
  by (simp add: tableFS_def)

text \<open>
  C5, as the code has it. The resolver goes through the literal path, then the path with
  \<^verbatim>\<open>.js\<close>, then with \<^verbatim>\<open>.json\<close>, in this order, and returns the first of them that is a
  regular file provided every candidate before it is passed over: its stat fails with
  \<^verbatim>\<open>ENOENT\<close>, or it is there but is not a regular file and, when the index fallback is on
  and it is a directory, the lookup of its index file finds nothing. (A candidate whose
  stat fails with another error, or a directory whose index lookup finds a file or fails,
  ends the chain instead.) In particular \<^verbatim>\<open>.js\<close> wins over \<^verbatim>\<open>.json\<close> when both are files and
  the literal path is passed over. A directory is never the answer of an extension check:
  it is no regular file, without the index fallback it is passed over, with the fallback
  it is passed over exactly when its index lookup finds nothing, and whatever the
  resolver returns is a regular file.
\<close>

theorem resolveFile_extension_priority:
  "ResolveExtensions = ['''', ''.js'', ''.json'']
   \<and> (\<forall>i < length ResolveExtensions.
        (\<forall>j<i. passedOver fs useIndex (file @ ResolveExtensions ! j))
        \<and> existsAsFile fs (file @ ResolveExtensions ! i)
        \<longrightarrow> resolveFile fs file useIndex = Inr (Some (file @ ResolveExtensions ! i)))
   \<and> (passedOver fs useIndex file \<and> existsAsFile fs (file @ ''.js'')
        \<and> existsAsFile fs (file @ ''.json'')
        \<longrightarrow> resolveFile fs file useIndex = Inr (Some (file @ ''.js'')))
   \<and> (\<forall>p. doesNotExist fs p \<longrightarrow> passedOver fs useIndex p)
   \<and> (\<forall>p. existsAsDirectory fs p \<longrightarrow> passedOver fs False p \<and> \<not> existsAsFile fs p)
   \<and> (\<forall>p. existsAsDirectory fs p \<longrightarrow>
          passedOver fs True p = (resolveFile fs (joinPaths p ''index'') False = Inr None))
   \<and> (\<forall>f. resolveFile fs file useIndex = Inr (Some f) \<longrightarrow> existsAsFile fs f)"
proof (intro conjI allI impI)
  show "ResolveExtensions = ['''', ''.js'', ''.json'']"
    by (rule ResolveExtensions_def)
next
  fix i
  assume "i < length ResolveExtensions"
    and "(\<forall>j<i. passedOver fs useIndex (file @ ResolveExtensions ! j))
         \<and> existsAsFile fs (file @ ResolveExtensions ! i)"
  then show "resolveFile fs file useIndex = Inr (Some (file @ ResolveExtensions ! i))"
    by (simp add: resolveFile_first_file)
next
  assume "passedOver fs useIndex file \<and> existsAsFile fs (file @ ''.js'')
          \<and> existsAsFile fs (file @ ''.json'')"
  then show "resolveFile fs file useIndex = Inr (Some (file @ ''.js''))"
    using resolveFile_first_file[of 1 fs useIndex "file"]
    by (simp add: ResolveExtensions_def)
next
  fix p assume "doesNotExist fs p"
  then show "passedOver fs useIndex p" by (rule passedOver_absent)
next
  fix p assume "existsAsDirectory fs p"
  then show "passedOver fs False p" by (rule passedOver_directory)
next
  fix p assume "existsAsDirectory fs p"
  then show "\<not> existsAsFile fs p"
    by (auto simp: existsAsDirectory_def existsAsFile_def split: sum.splits)
next
  fix p assume "existsAsDirectory fs p"
  then show "passedOver fs True p = (resolveFile fs (joinPaths p ''index'') False = Inr None)"
    by (auto simp: existsAsDirectory_def passedOver_def split: sum.splits)
next
  fix f assume "resolveFile fs file useIndex = Inr (Some f)"
  then show "existsAsFile fs f" by (rule resolveFile_result_is_file)
qed

text \<open>
  The example of C5: \<^verbatim>\<open>/pkg/lib/foo\<close> does not exist, \<^verbatim>\<open>/pkg/lib/foo.js\<close> and
  \<^verbatim>\<open>/pkg/lib/foo.json\<close> are files; the resolver answers \<^verbatim>\<open>/pkg/lib/foo.js\<close>.
\<close>

theorem resolveFile_extension_priority_witness:
  "doesNotExist jsAndJsonFS ''/pkg/lib/foo''
   \<and> existsAsFile jsAndJsonFS ''/pkg/lib/foo.js''
   \<and> existsAsFile jsAndJsonFS ''/pkg/lib/foo.json''
   \<and> resolveFile jsAndJsonFS ''/pkg/lib/foo'' False = Inr (Some ''/pkg/lib/foo.js'')
   \<and> resolveFile jsAndJsonFS ''/pkg/lib/foo'' True = Inr (Some ''/pkg/lib/foo.js'')"
proof -
  have absent: "doesNotExist jsAndJsonFS ''/pkg/lib/foo''"
    by (simp add: doesNotExist_def jsAndJsonFS_def stat_tableFS ENOENT_def)
  have js: "existsAsFile jsAndJsonFS (''/pkg/lib/foo'' @ ''.js'')"
    by (simp add: existsAsFile_def jsAndJsonFS_def stat_tableFS aFile_def isFile_def)
  have json: "existsAsFile jsAndJsonFS (''/pkg/lib/foo'' @ ''.json'')"
    by (simp add: existsAsFile_def jsAndJsonFS_def stat_tableFS aFile_def isFile_def)
  have "resolveFile jsAndJsonFS ''/pkg/lib/foo'' useIndex = Inr (Some (''/pkg/lib/foo'' @ ''.js''))"
    for useIndex
    using resolveFile_extension_priority[of jsAndJsonFS useIndex "''/pkg/lib/foo''"]
      absent js json
    by blast
  with absent js json show ?thesis
    by simp
qed

text \<open>
  C5 as the spec states it fails, in two ways. With the index fallback on,
  \<^verbatim>\<open>/pkg/mod\<close> a directory that holds \<^verbatim>\<open>index.json\<close>, \<^verbatim>\<open>/pkg/mod.js\<close> absent and
  \<^verbatim>\<open>/pkg/mod.json\<close> a regular file, the first candidate that is a regular file is
  \<^verbatim>\<open>/pkg/mod.json\<close>, and the answer is \<^verbatim>\<open>/pkg/mod/index.json\<close>. With the fallback off, the
  stat of \<^verbatim>\<open>/pkg/mod\<close> failing with \<^verbatim>\<open>EACCES\<close> and \<^verbatim>\<open>/pkg/mod.js\<close> a regular file, the answer
  is the error and not \<^verbatim>\<open>/pkg/mod.js\<close>.
\<close>

theorem resolveFile_extension_priority_counterexample:
  "existsAsDirectory indexBeforeJsonFS ''/pkg/mod''
   \<and> doesNotExist indexBeforeJsonFS ''/pkg/mod.js''
   \<and> existsAsFile indexBeforeJsonFS ''/pkg/mod.json''
   \<and> resolveFile indexBeforeJsonFS ''/pkg/mod'' True = Inr (Some ''/pkg/mod/index.json'')
   \<and> stat unreadableFS ''/pkg/mod'' = Inl EACCES
   \<and> existsAsFile unreadableFS ''/pkg/mod.js''
   \<and> resolveFile unreadableFS ''/pkg/mod'' False = Inl EACCES"
proof -
  have j: "joinPaths ''/pkg/mod'' ''index'' = ''/pkg/mod/index''"
    by (simp add: joinPaths_def normalize_def Let_def)
  show ?thesis
    by (simp add: j resolveFile_chain tryExtension_def indexBeforeJsonFS_def unreadableFS_def
        stat_tableFS aFile_def aDirectory_def ENOENT_def EACCES_def isFile_def isDirectory_def
        existsAsFile_def existsAsDirectory_def doesNotExist_def)
qed

lemma joinPaths_lib_index: "joinPaths ''/pkg/lib'' ''index'' = ''/pkg/lib/index''"
  by (simp add: joinPaths_def normalize_def Let_def)

lemma joinPaths_libjs_index: "joinPaths ''/pkg/lib.js'' ''index'' = ''/pkg/lib.js/index''"
  by (simp add: joinPaths_def normalize_def Let_def)

text \<open>
  C6, as the code has it. With the index fallback on, the fallback is part of the step
  for each candidate: at the first candidate that is a directory (the literal path, or
  the path with \<^verbatim>\<open>.js\<close> or \<^verbatim>\<open>.json\<close>), the candidates before it being passed over,
  the resolver looks up \<^verbatim>\<open>index\<close> in that directory with the fallback off, and what
  this lookup finds (a file or an error) is the answer, whatever the later candidates
  are. A lookup with the fallback off answers with one of its three candidates only, so
  the index lookup never nests; and every answer with the fallback on is a candidate or
  the index file of a candidate that is a directory.
\<close>

theorem resolveFile_index_fallback:
  "(\<forall>i < length ResolveExtensions.
      (\<forall>j<i. passedOver fs True (file @ ResolveExtensions ! j))
      \<and> existsAsDirectory fs (file @ ResolveExtensions ! i)
      \<and> resolveFile fs (joinPaths (file @ ResolveExtensions ! i) ''index'') False \<noteq> Inr None
      \<longrightarrow> resolveFile fs file True
            = resolveFile fs (joinPaths (file @ ResolveExtensions ! i) ''index'') False)
   \<and> (\<forall>p f. resolveFile fs p False = Inr (Some f)
        \<longrightarrow> f \<in> set (map (\<lambda>ext. p @ ext) ResolveExtensions))
   \<and> (\<forall>f. resolveFile fs file True = Inr (Some f)
        \<longrightarrow> (\<exists>ext\<in>set ResolveExtensions.
               f = file @ ext
               \<or> (existsAsDirectory fs (file @ ext)
                   \<and> (\<exists>ext'\<in>set ResolveExtensions.
                         f = joinPaths (file @ ext) ''index'' @ ext'))))"
proof (intro conjI allI impI)
  fix i
  assume "i < length ResolveExtensions"
    and "(\<forall>j<i. passedOver fs True (file @ ResolveExtensions ! j))
      \<and> existsAsDirectory fs (file @ ResolveExtensions ! i)
      \<and> resolveFile fs (joinPaths (file @ ResolveExtensions ! i) ''index'') False \<noteq> Inr None"
  then show "resolveFile fs file True
            = resolveFile fs (joinPaths (file @ ResolveExtensions ! i) ''index'') False"
    by (simp add: resolveFile_first_directory)
next
  fix p f assume "resolveFile fs p False = Inr (Some f)"
  then show "f \<in> set (map (\<lambda>ext. p @ ext) ResolveExtensions)"
    using resolveFile_no_index_candidates[of fs p f] by blast
next
  fix f assume "resolveFile fs file True = Inr (Some f)"
  from resolveFile_Some[OF this] obtain ext where ext: "ext \<in> set ResolveExtensions"
    and cases: "f = file @ ext
      \<or> (existsAsDirectory fs (file @ ext)
          \<and> resolveFile fs (joinPaths (file @ ext) ''index'') False = Inr (Some f))"
    by auto
  from cases have "f = file @ ext
      \<or> (existsAsDirectory fs (file @ ext)
          \<and> (\<exists>ext'\<in>set ResolveExtensions. f = joinPaths (file @ ext) ''index'' @ ext'))"
    using resolveFile_no_index_candidates[of fs "joinPaths (file @ ext) ''index''" f]
    by auto
  with ext
  show "\<exists>ext\<in>set ResolveExtensions.
               f = file @ ext
               \<or> (existsAsDirectory fs (file @ ext)
                   \<and> (\<exists>ext'\<in>set ResolveExtensions.
                         f = joinPaths (file @ ext) ''index'' @ ext'))"
    by blast
qed

text \<open>
  The example of C6: the directory \<^verbatim>\<open>/pkg/lib\<close> holds \<^verbatim>\<open>index.json\<close> only, and the
  resolver, with the fallback on, answers \<^verbatim>\<open>/pkg/lib/index.json\<close>.
\<close>

theorem resolveFile_index_fallback_witness:
  "existsAsDirectory indexOnlyFS ''/pkg/lib''
   \<and> resolveFile indexOnlyFS ''/pkg/lib/index'' False = Inr (Some ''/pkg/lib/index.json'')
   \<and> resolveFile indexOnlyFS ''/pkg/lib'' True = Inr (Some ''/pkg/lib/index.json'')"
proof -
  have dir: "existsAsDirectory indexOnlyFS (''/pkg/lib'' @ ResolveExtensions ! 0)"
    by (simp add: existsAsDirectory_def indexOnlyFS_def stat_tableFS aDirectory_def
        isFile_def isDirectory_def ResolveExtensions_def)
  have idx: "resolveFile indexOnlyFS (joinPaths (''/pkg/lib'' @ ResolveExtensions ! 0) ''index'') False
               = Inr (Some ''/pkg/lib/index.json'')"
    by (simp add: ResolveExtensions_def joinPaths_lib_index resolveFile_chain tryExtension_def
        indexOnlyFS_def stat_tableFS aFile_def aDirectory_def ENOENT_def isFile_def)
  have "resolveFile indexOnlyFS ''/pkg/lib'' True = Inr (Some ''/pkg/lib/index.json'')"
    using resolveFile_index_fallback[of indexOnlyFS "''/pkg/lib''", THEN conjunct1, rule_format, of 0]
      dir idx
    by (simp add: ResolveExtensions_def)
  with dir idx show ?thesis
    by (simp add: ResolveExtensions_def joinPaths_lib_index)
qed

text \<open>
  C6 as the spec states it fails. The fallback does not wait for the three candidates:
  with \<^verbatim>\<open>/pkg/lib\<close> a directory that holds \<^verbatim>\<open>index.js\<close> and \<^verbatim>\<open>/pkg/lib.js\<close> a regular
  file, the answer is \<^verbatim>\<open>/pkg/lib/index.js\<close>. Nor does it need the literal path to be a
  directory: with \<^verbatim>\<open>/pkg/lib\<close> absent and \<^verbatim>\<open>/pkg/lib.js\<close> a directory that holds
  \<^verbatim>\<open>index.js\<close>, the answer is \<^verbatim>\<open>/pkg/lib.js/index.js\<close>.
\<close>

theorem resolveFile_index_fallback_counterexample:
  "existsAsFile indexBeforeJsFS ''/pkg/lib.js''
   \<and> resolveFile indexBeforeJsFS ''/pkg/lib'' True = Inr (Some ''/pkg/lib/index.js'')
   \<and> doesNotExist jsDirectoryFS ''/pkg/lib''
   \<and> resolveFile jsDirectoryFS ''/pkg/lib'' True = Inr (Some ''/pkg/lib.js/index.js'')"
  by (simp add: joinPaths_lib_index joinPaths_libjs_index resolveFile_chain tryExtension_def
        indexBeforeJsFS_def jsDirectoryFS_def stat_tableFS aFile_def aDirectory_def ENOENT_def
        isFile_def isDirectory_def existsAsFile_def doesNotExist_def)

text \<open>
  C7. When the stat of a candidate fails with an error other than \<^verbatim>\<open>ENOENT\<close>, the
  candidates before it being passed over, the resolver answers with that error, whatever
  the later candidates are; the same holds for an error of the index lookup in a
  candidate that is a directory. And the answer "nothing found" is given only when no
  stat of the chain failed with such an error: every failed stat of a candidate was
  \<^verbatim>\<open>ENOENT\<close>, and every index lookup made found nothing (so the same holds for it).
\<close>

theorem resolveFile_error_short_circuit:
  "(\<forall>i < length ResolveExtensions. \<forall>err.
      (\<forall>j<i. passedOver fs useIndex (file @ ResolveExtensions ! j))
      \<and> stat fs (file @ ResolveExtensions ! i) = Inl err \<and> code err \<noteq> Some ''ENOENT''
      \<longrightarrow> resolveFile fs file useIndex = Inl err)
   \<and> (\<forall>i < length ResolveExtensions. \<forall>err.
      (\<forall>j<i. passedOver fs True (file @ ResolveExtensions ! j))
      \<and> existsAsDirectory fs (file @ ResolveExtensions ! i)
      \<and> resolveFile fs (joinPaths (file @ ResolveExtensions ! i) ''index'') False = Inl err
      \<longrightarrow> resolveFile fs file True = Inl err)
   \<and> (resolveFile fs file useIndex = Inr None
      \<longrightarrow> (\<forall>ext\<in>set ResolveExtensions. \<forall>err.
             stat fs (file @ ext) = Inl err \<longrightarrow> code err = Some ''ENOENT'')
          \<and> (\<forall>ext\<in>set ResolveExtensions.
               useIndex \<and> existsAsDirectory fs (file @ ext)
               \<longrightarrow> resolveFile fs (joinPaths (file @ ext) ''index'') False = Inr None))"
proof (intro conjI allI impI ballI)
  fix i err
  assume "i < length ResolveExtensions"
    and "(\<forall>j<i. passedOver fs useIndex (file @ ResolveExtensions ! j))
      \<and> stat fs (file @ ResolveExtensions ! i) = Inl err \<and> code err \<noteq> Some ''ENOENT''"
  then show "resolveFile fs file useIndex = Inl err"
    by (simp add: resolveFile_first_error)
next
  fix i err
  assume "i < length ResolveExtensions"
    and "(\<forall>j<i. passedOver fs True (file @ ResolveExtensions ! j))
      \<and> existsAsDirectory fs (file @ ResolveExtensions ! i)
      \<and> resolveFile fs (joinPaths (file @ ResolveExtensions ! i) ''index'') False = Inl err"
  then show "resolveFile fs file True = Inl err"
    by (simp add: resolveFile_first_directory)
next
  fix ext err
  assume "resolveFile fs file useIndex = Inr None" and "ext \<in> set ResolveExtensions"
    and "stat fs (file @ ext) = Inl err"
  then show "code err = Some ''ENOENT''"
    using resolveFile_not_found[of fs "file" useIndex] by (auto simp: passedOver_def)
next
  fix ext
  assume "resolveFile fs file useIndex = Inr None" and "ext \<in> set ResolveExtensions"
    and "useIndex \<and> existsAsDirectory fs (file @ ext)"
  then show "resolveFile fs (joinPaths (file @ ext) ''index'') False = Inr None"
    using resolveFile_not_found[of fs "file" useIndex]
    by (auto simp: passedOver_def existsAsDirectory_def split: sum.splits)
qed

text \<open>
  The example of C7: the stat of \<^verbatim>\<open>/pkg/lib/foo\<close> fails with \<^verbatim>\<open>EACCES\<close> and
  \<^verbatim>\<open>/pkg/lib/foo.js\<close> is a regular file; the resolver answers with the error.
\<close>

theorem resolveFile_error_short_circuit_witness:
  "stat deniedFS ''/pkg/lib/foo'' = Inl EACCES
   \<and> code EACCES \<noteq> Some ''ENOENT''
   \<and> existsAsFile deniedFS ''/pkg/lib/foo.js''
   \<and> resolveFile deniedFS ''/pkg/lib/foo'' False = Inl EACCES
   \<and> resolveFile deniedFS ''/pkg/lib/foo'' True = Inl EACCES"
proof -
  have st: "stat deniedFS (''/pkg/lib/foo'' @ ResolveExtensions ! 0) = Inl EACCES"
    by (simp add: deniedFS_def stat_tableFS ResolveExtensions_def)
  have c: "code EACCES \<noteq> Some ''ENOENT''"
    by (simp add: EACCES_def)
  have js: "existsAsFile deniedFS ''/pkg/lib/foo.js''"
    by (simp add: existsAsFile_def deniedFS_def stat_tableFS aFile_def isFile_def)
  have "resolveFile deniedFS ''/pkg/lib/foo'' useIndex = Inl EACCES" for useIndex
    using resolveFile_error_short_circuit[of deniedFS useIndex "''/pkg/lib/foo''",
        THEN conjunct1, rule_format, of 0 EACCES] st c
    by (simp add: ResolveExtensions_def)
  with st c js show ?thesis
    by (simp add: ResolveExtensions_def)
qed


section \<open>Properties of the request handler\<close>

lemma handleRequest_cached:
  "parsePackageURL e (url req) = Some u \<Longrightarrow> checkLocalCache fs (tarballDir e u) \<Longrightarrow>
   handleRequest fuel e s fs req = serveFile fuel e s fs req u"
  by (simp add: handleRequest_def)

lemma handleRequest_not_cached:
  "parsePackageURL e (url req) = Some u \<Longrightarrow> \<not> checkLocalCache fs (tarballDir e u) \<Longrightarrow>
   handleRequest fuel e s fs req = fetchPackageInfo fuel e s fs req u"
  by (simp add: handleRequest_def)

lemma getProperty_Own: "map_of object key = Some v \<Longrightarrow> getProperty object key = Own v"
  by (simp add: getProperty_def)

lemma getProperty_Missing:
  "getProperty object key = Missing \<longleftrightarrow> map_of object key = None \<and> key \<notin> set ObjectPrototype"
  by (simp add: getProperty_def split: option.splits)

lemma fetchPackageInfo_error:
  assumes "getPackageInfo e (registryURL s) (packageName u) = Inl error"
  shows "fetchPackageInfo fuel e s fs req u = (SendServerError (Inl error), fs)"
  using assms by (simp add: fetchPackageInfo_def)

lemma fetchPackageInfo_404:
  assumes "getPackageInfo e (registryURL s) (packageName u) = Inr response"
    and "status response = 404"
  shows \<open>fetchPackageInfo fuel e s fs req u =
           (SendNotFoundError (''package "'' @ packageName u @ ''"''), fs)\<close>
  using assms by (simp add: fetchPackageInfo_def)

text \<open>The rules of the handler once the registry has answered with its metadata.\<close>

lemma fetchPackageInfo_metadata:
  assumes "getPackageInfo e (registryURL s) (packageName u) = Inr response"
    and "status response \<noteq> 404"
    and "jsonData response = Some info" and "versions info = Some versions'"
  shows "fetchPackageInfo fuel e s fs req u =
     (case getProperty versions' (version u) of
        Own packageConfig \<Rightarrow>
          (case getPackage e (dist_tarball packageConfig) (tarballDir e u) fs of
             (Some error, fs') \<Rightarrow> (SendServerError (Inl error), fs')
           | (None, fs') \<Rightarrow> serveFile fuel e s fs' req u)
      | Inherited \<Rightarrow> (UncaughtTypeError, fs)
      | Missing \<Rightarrow>
          (case dist_tags info of
             None \<Rightarrow> (UncaughtTypeError, fs)
           | Some tags' \<Rightarrow>
               (case map_of tags' (version u) of
                  Some tagVersion \<Rightarrow>
                    (SendRedirect
                       (baseUrl req @ createPackageURL e (packageName u) tagVersion
                          (filename u) (search u))
                       (redirectTTL s), fs)
                | None \<Rightarrow>
                    (case maxSatisfyingVersion e (map fst versions') (version u) of
                       Some maxVersion \<Rightarrow>
                         if maxVersion \<noteq> [] then
                           (SendRedirect
                              (baseUrl req @ createPackageURL e (packageName u) maxVersion
                                 (filename u) (search u))
                              (redirectTTL s), fs)
                         else
                           (SendNotFoundError
                              (''package '' @ packageName u @ ''@'' @ version u), fs)
                     | None \<Rightarrow>
                         (SendNotFoundError
                            (''package '' @ packageName u @ ''@'' @ version u), fs)))))"
  using assms by (simp add: fetchPackageInfo_def)

lemma fetchPackageInfo_no_fetch:
  assumes "\<And>response info versions'.
      getPackageInfo e (registryURL s) (packageName u) = Inr response \<Longrightarrow>
      jsonData response = Some info \<Longrightarrow> versions info = Some versions' \<Longrightarrow>
      map_of versions' (version u) = None"
  shows "snd (fetchPackageInfo fuel e s fs req u) = fs
    \<and> fetchPackageInfo fuel (e\<lparr>getPackage := fetch\<rparr>) s fs req u = fetchPackageInfo fuel e s fs req u"
  using assms
  by (auto simp: fetchPackageInfo_def tarballDir_def getProperty_def
      split: sum.splits option.splits)

lemma exampleEnv_fields:
  "TmpDir exampleEnv = ''/tmp''"
  "parsePackageURL exampleEnv = parsePackageURL_spec"
  "createPackageURL exampleEnv = createPackageURL_spec"
  "getPackageInfo exampleEnv = exampleRegistry"
  "getPackage exampleEnv = (\<lambda>tarballURL dir fs. (None, extractExample dir fs))"
  by (simp_all add: exampleEnv_def)

lemma exampleEnv_parseJSON:
  \<open>parseJSON exampleEnv ''{"main": "lib/foo"}'' = Inr [(''main'', JString ''lib/foo'')]\<close>
  \<open>parseJSON exampleEnv ''{"main": "lib/foo", "browser": {"fs": false}}'' =
     Inr [(''main'', JString ''lib/foo''), (''browser'', JObject [(''fs'', JBool False)])]\<close>
  by (simp_all add: exampleEnv_def)

lemma parse_example: "parsePackageURL_spec ''/name@1.0.0/lib/a.js'' =
  Some \<lparr>packageName = ''name'', version = ''1.0.0'', filename = ''/lib/a.js'', search = []\<rparr>"
  by (simp add: parsePackageURL_spec_def splitVersion_def Let_def)

lemma tarballDir_example [simp]:
  "tarballDir exampleEnv \<lparr>packageName = ''name'', version = ''1.0.0'', filename = f, search = q\<rparr>
     = ''/tmp/name-1.0.0''"
  by (simp add: tarballDir_def exampleEnv_def joinPaths_def normalize_def Let_def)

lemma joinPaths_manifest: "joinPaths ''/tmp/name-1.0.0'' ''package.json'' = ''/tmp/name-1.0.0/package.json''"
  by (simp add: joinPaths_def normalize_def Let_def)

lemma joinPaths_extracted:
  "joinPaths ''/tmp/name-1.0.0'' ''lib/a.js'' = ''/tmp/name-1.0.0/lib/a.js''"
  "joinPaths ''/tmp/name-1.0.0'' ''/lib/a.js'' = ''/tmp/name-1.0.0/lib/a.js''"
  by (simp_all add: joinPaths_def normalize_def Let_def)

lemma stat_extractExample:
  "stat (extractExample dir fs) p =
     (if p = joinPaths dir ''package.json'' \<or> p = joinPaths dir ''lib/a.js''
      then aFile else stat fs p)"
  by (simp add: extractExample_def)

lemma not_cached_emptyFS: "\<not> checkLocalCache emptyFS dir"
  by (simp add: checkLocalCache_def emptyFS_def stat_tableFS)

lemma baseUrl_requestOf: "baseUrl (requestOf u) = []"
  by (simp add: baseUrl_def requestOf_def slice0_def Let_def)

lemma parse_latest_example: "parsePackageURL_spec ''/name@latest/lib/foo.js'' =
  Some \<lparr>packageName = ''name'', version = ''latest'', filename = ''/lib/foo.js'', search = []\<rparr>"
  by (simp add: parsePackageURL_spec_def splitVersion_def Let_def)

lemma tarballDir_latest:
  "tarballDir exampleEnv \<lparr>packageName = ''name'', version = ''latest'', filename = f, search = q\<rparr>
     = ''/tmp/name-latest''"
  by (simp add: tarballDir_def exampleEnv_def joinPaths_def normalize_def Let_def)

lemma joinPaths_latest_manifest:
  "joinPaths ''/tmp/name-latest'' ''package.json'' = ''/tmp/name-latest/package.json''"
  by (simp add: joinPaths_def normalize_def Let_def)

lemma joinPaths_latest_file:
  "joinPaths ''/tmp/name-latest'' ''/lib/foo.js'' = ''/tmp/name-latest/lib/foo.js''"
  by (simp add: joinPaths_def normalize_def Let_def)

lemma parse_constructor_example: "parsePackageURL_spec ''/name@constructor/a.js'' =
  Some \<lparr>packageName = ''name'', version = ''constructor'', filename = ''/a.js'', search = []\<rparr>"
  by (simp add: parsePackageURL_spec_def splitVersion_def Let_def)

lemma parse_valueOf_example: "parsePackageURL_spec ''/name@valueOf/a.js'' =
  Some \<lparr>packageName = ''name'', version = ''valueOf'', filename = ''/a.js'', search = []\<rparr>"
  by (simp add: parsePackageURL_spec_def splitVersion_def Let_def)

lemma parse_main_examples:
  "parsePackageURL_spec ''/name@1.0.0?main=toString'' =
     Some \<lparr>packageName = ''name'', version = ''1.0.0'', filename = [], search = ''?main=toString''\<rparr>"
  "parsePackageURL_spec ''/name@1.0.0?main=browser'' =
     Some \<lparr>packageName = ''name'', version = ''1.0.0'', filename = [], search = ''?main=browser''\<rparr>"
  by (simp_all add: parsePackageURL_spec_def splitVersion_def Let_def)

lemma readFile_tableFS:
  "readFile (tableFS nodes listings contents) p =
     (case map_of contents p of None \<Rightarrow> Inl ENOENT | Some d \<Rightarrow> Inr d)"
  by (simp add: tableFS_def)

lemma fetchPackageInfo_inherited_example:
  assumes "v \<in> set ObjectPrototype"
  shows "fetchPackageInfo fuel exampleEnv exampleSettings fs req
           \<lparr>packageName = ''name'', version = v, filename = f, search = q\<rparr>
         = (UncaughtTypeError, fs)"
proof -
  let ?versions = "[(''1.0.0'', \<lparr>dist_tarball = ''https://registry.npmjs.org/name/-/name-1.0.0.tgz''\<rparr>),
                   (''1.2.0'', \<lparr>dist_tarball = ''https://registry.npmjs.org/name/-/name-1.2.0.tgz''\<rparr>),
                   (''2.0.0'', \<lparr>dist_tarball = ''https://registry.npmjs.org/name/-/name-2.0.0.tgz''\<rparr>)]"
  have "map_of ?versions v = None"
    using assms by (auto simp: ObjectPrototype_def)
  then have "getProperty ?versions v = Inherited"
    using assms by (simp add: getProperty_def)
  then show ?thesis
    by (simp add: fetchPackageInfo_def exampleEnv_fields exampleRegistry_def exampleSettings_def)
qed

text \<open>
  C10. The cache gate never hands on an error of the file system: when the stat of the
  manifest fails, with whatever error, \<open>checkLocalCache\<close> says "not cached", and the
  handler asks the registry. What it answers then comes from the registry and the
  fetcher alone: the registry's own error, NotFound for a package the registry does not
  know, and for an exact version the tarball is fetched into the cache directory again
  and the request is served from what the fetcher leaves there.
\<close>

theorem checkLocalCache_ignores_errors:
  \<open>\<forall>u err.
      parsePackageURL e (url req) = Some u
      \<and> stat fs (joinPaths (tarballDir e u) ''package.json'') = Inl err
    \<longrightarrow>
      \<not> checkLocalCache fs (tarballDir e u)
      \<and> (\<forall>error. getPackageInfo e (registryURL s) (packageName u) = Inl error
           \<longrightarrow> handleRequest fuel e s fs req = (SendServerError (Inl error), fs))
      \<and> (\<forall>response. getPackageInfo e (registryURL s) (packageName u) = Inr response
             \<and> status response = 404
           \<longrightarrow> handleRequest fuel e s fs req =
                 (SendNotFoundError (''package "'' @ packageName u @ ''"''), fs))
      \<and> (\<forall>response info versions' packageConfig.
             getPackageInfo e (registryURL s) (packageName u) = Inr response
             \<and> status response \<noteq> 404
             \<and> jsonData response = Some info \<and> versions info = Some versions'
             \<and> map_of versions' (version u) = Some packageConfig
           \<longrightarrow> handleRequest fuel e s fs req =
                 (case getPackage e (dist_tarball packageConfig) (tarballDir e u) fs of
                    (Some error, fs') \<Rightarrow> (SendServerError (Inl error), fs')
                  | (None, fs') \<Rightarrow> serveFile fuel e s fs' req u))\<close>
proof (intro allI impI)
  fix u err
  assume h: "parsePackageURL e (url req) = Some u
      \<and> stat fs (joinPaths (tarballDir e u) ''package.json'') = Inl err"
  then have n: "\<not> checkLocalCache fs (tarballDir e u)"
    by (simp add: checkLocalCache_def)
  with h have eq: "handleRequest fuel e s fs req = fetchPackageInfo fuel e s fs req u"
    by (simp add: handleRequest_not_cached)
  show "\<not> checkLocalCache fs (tarballDir e u)
      \<and> (\<forall>error. getPackageInfo e (registryURL s) (packageName u) = Inl error
           \<longrightarrow> handleRequest fuel e s fs req = (SendServerError (Inl error), fs))
      \<and> (\<forall>response. getPackageInfo e (registryURL s) (packageName u) = Inr response
             \<and> status response = 404
           \<longrightarrow> handleRequest fuel e s fs req =
                 (SendNotFoundError (''package \"'' @ packageName u @ ''\"''), fs))
      \<and> (\<forall>response info versions' packageConfig.
             getPackageInfo e (registryURL s) (packageName u) = Inr response
             \<and> status response \<noteq> 404
             \<and> jsonData response = Some info \<and> versions info = Some versions'
             \<and> map_of versions' (version u) = Some packageConfig
           \<longrightarrow> handleRequest fuel e s fs req =
                 (case getPackage e (dist_tarball packageConfig) (tarballDir e u) fs of
                    (Some error, fs') \<Rightarrow> (SendServerError (Inl error), fs')
                  | (None, fs') \<Rightarrow> serveFile fuel e s fs' req u))"
    using n
    by (auto simp: eq fetchPackageInfo_error fetchPackageInfo_404 fetchPackageInfo_metadata
        getProperty_Own)
qed

text \<open>
  The example of C10: the stat of the manifest fails with \<^verbatim>\<open>EACCES\<close>; the gate says "not
  cached", the registry knows version 1.0.0, the tarball is fetched, and the file is
  served from what was extracted.
\<close>

theorem checkLocalCache_ignores_errors_witness:
  "stat deniedManifestFS ''/tmp/name-1.0.0/package.json'' = Inl EACCES
   \<and> code EACCES = Some ''EACCES''
   \<and> \<not> checkLocalCache deniedManifestFS ''/tmp/name-1.0.0''
   \<and> handleRequest 1 exampleEnv exampleSettings deniedManifestFS (requestOf ''/name@1.0.0/lib/a.js'')
       = (SendFile ''/tmp/name-1.0.0/lib/a.js'' OneYear,
          extractExample ''/tmp/name-1.0.0'' deniedManifestFS)"
proof -
  let ?u = "\<lparr>packageName = ''name'', version = ''1.0.0'', filename = ''/lib/a.js'', search = []\<rparr>"
  let ?req = "requestOf ''/name@1.0.0/lib/a.js''"
  let ?cfg = "\<lparr>dist_tarball = ''https://registry.npmjs.org/name/-/name-1.0.0.tgz''\<rparr>"
  let ?versions = "[(''1.0.0'', ?cfg),
                   (''1.2.0'', \<lparr>dist_tarball = ''https://registry.npmjs.org/name/-/name-1.2.0.tgz''\<rparr>),
                   (''2.0.0'', \<lparr>dist_tarball = ''https://registry.npmjs.org/name/-/name-2.0.0.tgz''\<rparr>)]"
  let ?info = "\<lparr>versions = Some ?versions, dist_tags = Some [(''latest'', ''2.0.0'')]\<rparr>"
  let ?response = "\<lparr>status = 200, jsonData = Some ?info\<rparr>"
  have st: "stat deniedManifestFS ''/tmp/name-1.0.0/package.json'' = Inl EACCES"
    by (simp add: deniedManifestFS_def stat_tableFS)
  have h: "parsePackageURL exampleEnv (url ?req) = Some ?u
      \<and> stat deniedManifestFS (joinPaths (tarballDir exampleEnv ?u) ''package.json'') = Inl EACCES"
    by (simp add: exampleEnv_fields requestOf_def parse_example joinPaths_manifest st)
  have r: "getPackageInfo exampleEnv (registryURL exampleSettings) (packageName ?u) = Inr ?response
             \<and> status ?response \<noteq> 404
             \<and> jsonData ?response = Some ?info \<and> versions ?info = Some ?versions
             \<and> map_of ?versions (version ?u) = Some ?cfg"
    by (simp add: exampleEnv_fields exampleRegistry_def)
  have served: "serveFile fuel exampleEnv exampleSettings
                  (extractExample ''/tmp/name-1.0.0'' deniedManifestFS) ?req ?u
      = (SendFile ''/tmp/name-1.0.0/lib/a.js'' OneYear,
         extractExample ''/tmp/name-1.0.0'' deniedManifestFS)" for fuel
    by (simp add: serveFile_def exampleSettings_def joinPaths_extracted joinPaths_manifest
        resolveFile_chain tryExtension_def stat_extractExample aFile_def isFile_def Let_def)
  from checkLocalCache_ignores_errors[of exampleEnv ?req deniedManifestFS exampleSettings 1,
      rule_format, OF h]
  have n: "\<not> checkLocalCache deniedManifestFS (tarballDir exampleEnv ?u)"
    and f: "handleRequest 1 exampleEnv exampleSettings deniedManifestFS ?req =
       (case getPackage exampleEnv (dist_tarball ?cfg) (tarballDir exampleEnv ?u) deniedManifestFS of
          (Some error, fs') \<Rightarrow> (SendServerError (Inl error), fs')
        | (None, fs') \<Rightarrow> serveFile 1 exampleEnv exampleSettings fs' ?req ?u)"
    using r by blast+
  from f have "handleRequest 1 exampleEnv exampleSettings deniedManifestFS ?req
       = (SendFile ''/tmp/name-1.0.0/lib/a.js'' OneYear,
          extractExample ''/tmp/name-1.0.0'' deniedManifestFS)"
    by (simp add: exampleEnv_fields served)
  with st n show ?thesis
    by (simp add: EACCES_def)
qed

text \<open>
  C4. The token \<^verbatim>\<open>constructor\<close> is no key of the versions map of the example registry, no
  tag, and no range, so that by the rules the answer is NotFound. The test
  \<^verbatim>\<open>version in versions\<close> holds for it all the same, since every object inherits a
  property of this name; the handler takes the first rule, reads
  \<^verbatim>\<open>versions[version].dist.tarball\<close> and throws.
\<close>

theorem inherited_name_taken_for_version:
  "parsePackageURL exampleEnv ''/name@constructor/a.js'' =
     Some \<lparr>packageName = ''name'', version = ''constructor'', filename = ''/a.js'', search = []\<rparr>
   \<and> handleRequest 1 exampleEnv exampleSettings emptyFS (requestOf ''/name@constructor/a.js'')
       = (UncaughtTypeError, emptyFS)"
proof -
  have p: "parsePackageURL exampleEnv (url (requestOf ''/name@constructor/a.js'')) =
     Some \<lparr>packageName = ''name'', version = ''constructor'', filename = ''/a.js'', search = []\<rparr>"
    by (simp add: exampleEnv_fields requestOf_def parse_constructor_example)
  have i: "''constructor'' \<in> set ObjectPrototype"
    by (simp add: ObjectPrototype_def)
  have "handleRequest 1 exampleEnv exampleSettings emptyFS (requestOf ''/name@constructor/a.js'')
          = fetchPackageInfo 1 exampleEnv exampleSettings emptyFS (requestOf ''/name@constructor/a.js'')
              \<lparr>packageName = ''name'', version = ''constructor'', filename = ''/a.js'', search = []\<rparr>"
    by (rule handleRequest_not_cached[OF p not_cached_emptyFS])
  then have "handleRequest 1 exampleEnv exampleSettings emptyFS (requestOf ''/name@constructor/a.js'')
          = (UncaughtTypeError, emptyFS)"
    by (simp only: fetchPackageInfo_inherited_example[OF i])
  then show ?thesis
    by (simp add: exampleEnv_fields parse_constructor_example)
qed

text \<open>
  C9. The token \<^verbatim>\<open>valueOf\<close> is neither a version of the example registry, nor a tag, nor
  a range that a version satisfies, and the package is not in the cache. The answer is
  not NotFound naming \<^verbatim>\<open>name@valueOf\<close>: \<^verbatim>\<open>version in versions\<close> holds for the inherited
  name, and the handler throws at \<^verbatim>\<open>versions[version].dist.tarball\<close>.
\<close>

theorem unresolvable_token_throws:
  "parsePackageURL exampleEnv ''/name@valueOf/a.js'' =
     Some \<lparr>packageName = ''name'', version = ''valueOf'', filename = ''/a.js'', search = []\<rparr>
   \<and> handleRequest 1 exampleEnv exampleSettings emptyFS (requestOf ''/name@valueOf/a.js'')
       = (UncaughtTypeError, emptyFS)"
proof -
  have p: "parsePackageURL exampleEnv (url (requestOf ''/name@valueOf/a.js'')) =
     Some \<lparr>packageName = ''name'', version = ''valueOf'', filename = ''/a.js'', search = []\<rparr>"
    by (simp add: exampleEnv_fields requestOf_def parse_valueOf_example)
  have i: "''valueOf'' \<in> set ObjectPrototype"
    by (simp add: ObjectPrototype_def)
  have "handleRequest 1 exampleEnv exampleSettings emptyFS (requestOf ''/name@valueOf/a.js'')
          = fetchPackageInfo 1 exampleEnv exampleSettings emptyFS (requestOf ''/name@valueOf/a.js'')
              \<lparr>packageName = ''name'', version = ''valueOf'', filename = ''/a.js'', search = []\<rparr>"
    by (rule handleRequest_not_cached[OF p not_cached_emptyFS])
  then have "handleRequest 1 exampleEnv exampleSettings emptyFS (requestOf ''/name@valueOf/a.js'')
          = (UncaughtTypeError, emptyFS)"
    by (simp only: fetchPackageInfo_inherited_example[OF i])
  then show ?thesis
    by (simp add: exampleEnv_fields parse_valueOf_example)
qed

text \<open>
  C3, as the code has it. The cache directory is the join of the cache root and
  \<^verbatim>\<open>packageName-versionToken\<close>, with the token as the URL gives it, and the cache gate is
  asked about this directory first, before anything is resolved: when the gate finds a
  manifest there, a requested file that the resolver finds under this directory is sent.
  When the gate finds none and the token is no own property of the registry's versions
  map, the file system is left as it is and the tarball fetcher plays no part in the
  answer. With the registry's metadata and dist-tags at hand, and the test
  \<^verbatim>\<open>version in versions\<close> false, a token that is a tag is redirected to the URL built from
  the tag's version, with the same filename and search; any other token is redirected
  to the maximum satisfying version, or the answer is NotFound.
\<close>

theorem cache_directory_from_token:
  \<open>\<forall>u. parsePackageURL e (url req) = Some u \<longrightarrow>
      (\<forall>file.
          checkLocalCache fs (joinPaths (TmpDir e) (packageName u @ ''-'' @ version u))
          \<and> filename u \<noteq> bowerBundle s \<and> filename u \<noteq> []
          \<and> resolveFile fs
               (joinPaths (joinPaths (TmpDir e) (packageName u @ ''-'' @ version u)) (filename u))
               False = Inr (Some file)
         \<longrightarrow> handleRequest fuel e s fs req = (SendFile file OneYear, fs))
    \<and> (\<not> checkLocalCache fs (joinPaths (TmpDir e) (packageName u @ ''-'' @ version u))
        \<and> (\<forall>response info versions'.
              getPackageInfo e (registryURL s) (packageName u) = Inr response
              \<and> jsonData response = Some info \<and> versions info = Some versions'
              \<longrightarrow> map_of versions' (version u) = None)
         \<longrightarrow> snd (handleRequest fuel e s fs req) = fs
            \<and> (\<forall>fetch. handleRequest fuel (e\<lparr>getPackage := fetch\<rparr>) s fs req
                          = handleRequest fuel e s fs req))
    \<and> (\<forall>response info versions' tags.
          \<not> checkLocalCache fs (joinPaths (TmpDir e) (packageName u @ ''-'' @ version u))
          \<and> getPackageInfo e (registryURL s) (packageName u) = Inr response
          \<and> status response \<noteq> 404
          \<and> jsonData response = Some info \<and> versions info = Some versions'
          \<and> dist_tags info = Some tags
          \<and> getProperty versions' (version u) = Missing
         \<longrightarrow> handleRequest fuel e s fs req =
               (case map_of tags (version u) of
                  Some tagVersion \<Rightarrow>
                    (SendRedirect
                       (baseUrl req @ createPackageURL e (packageName u) tagVersion
                          (filename u) (search u))
                       (redirectTTL s), fs)
                | None \<Rightarrow>
                    (case maxSatisfyingVersion e (map fst versions') (version u) of
                       Some maxVersion \<Rightarrow>
                         if maxVersion \<noteq> [] then
                           (SendRedirect
                              (baseUrl req @ createPackageURL e (packageName u) maxVersion
                                 (filename u) (search u))
                              (redirectTTL s), fs)
                         else
                           (SendNotFoundError
                              (''package '' @ packageName u @ ''@'' @ version u), fs)
                     | None \<Rightarrow>
                         (SendNotFoundError
                            (''package '' @ packageName u @ ''@'' @ version u), fs))))\<close>
proof (intro allI impI conjI)
  fix u and f :: string
  assume p: "parsePackageURL e (url req) = Some u"
    and h: "checkLocalCache fs (joinPaths (TmpDir e) (packageName u @ ''-'' @ version u))
          \<and> filename u \<noteq> bowerBundle s \<and> filename u \<noteq> []
          \<and> resolveFile fs
               (joinPaths (joinPaths (TmpDir e) (packageName u @ ''-'' @ version u)) (filename u))
               False = Inr (Some f)"
  from h have "f \<noteq> []"
    using resolveFile_index_not_Nil[of fs
        "joinPaths (TmpDir e) (packageName u @ ''-'' @ version u)" "filename u"]
    by auto
  with p h show "handleRequest fuel e s fs req = (SendFile f OneYear, fs)"
    by (simp add: handleRequest_def tarballDir_def serveFile_def Let_def)
next
  fix u
  assume p: "parsePackageURL e (url req) = Some u"
    and h: "\<not> checkLocalCache fs (joinPaths (TmpDir e) (packageName u @ ''-'' @ version u))
        \<and> (\<forall>response info versions'.
              getPackageInfo e (registryURL s) (packageName u) = Inr response
              \<and> jsonData response = Some info \<and> versions info = Some versions'
              \<longrightarrow> map_of versions' (version u) = None)"
  then show "snd (handleRequest fuel e s fs req) = fs"
    using fetchPackageInfo_no_fetch[of e s u fuel fs req]
    by (simp add: handleRequest_def tarballDir_def)
next
  fix u fetch
  assume p: "parsePackageURL e (url req) = Some u"
    and h: "\<not> checkLocalCache fs (joinPaths (TmpDir e) (packageName u @ ''-'' @ version u))
        \<and> (\<forall>response info versions'.
              getPackageInfo e (registryURL s) (packageName u) = Inr response
              \<and> jsonData response = Some info \<and> versions info = Some versions'
              \<longrightarrow> map_of versions' (version u) = None)"
  have "fetchPackageInfo fuel (e\<lparr>getPackage := fetch\<rparr>) s fs req u
          = fetchPackageInfo fuel e s fs req u"
    using h fetchPackageInfo_no_fetch[of e s u fuel fs req fetch] by simp
  then show "handleRequest fuel (e\<lparr>getPackage := fetch\<rparr>) s fs req
          = handleRequest fuel e s fs req"
    using p h by (simp add: handleRequest_def tarballDir_def)
next
  fix u response info versions' tags
  assume p: "parsePackageURL e (url req) = Some u"
    and h: "\<not> checkLocalCache fs (joinPaths (TmpDir e) (packageName u @ ''-'' @ version u))
          \<and> getPackageInfo e (registryURL s) (packageName u) = Inr response
          \<and> status response \<noteq> 404
          \<and> jsonData response = Some info \<and> versions info = Some versions'
          \<and> dist_tags info = Some tags
          \<and> getProperty versions' (version u) = Missing"
  then have "handleRequest fuel e s fs req = fetchPackageInfo fuel e s fs req u"
    by (simp add: handleRequest_def tarballDir_def)
  with h show "handleRequest fuel e s fs req =
               (case map_of tags (version u) of
                  Some tagVersion \<Rightarrow>
                    (SendRedirect
                       (baseUrl req @ createPackageURL e (packageName u) tagVersion
                          (filename u) (search u))
                       (redirectTTL s), fs)
                | None \<Rightarrow>
                    (case maxSatisfyingVersion e (map fst versions') (version u) of
                       Some maxVersion \<Rightarrow>
                         if maxVersion \<noteq> [] then
                           (SendRedirect
                              (baseUrl req @ createPackageURL e (packageName u) maxVersion
                                 (filename u) (search u))
                              (redirectTTL s), fs)
                         else
                           (SendNotFoundError
                              (''package '' @ packageName u @ ''@'' @ version u), fs)
                     | None \<Rightarrow>
                         (SendNotFoundError
                            (''package '' @ packageName u @ ''@'' @ version u), fs)))"
    by (simp add: fetchPackageInfo_metadata)
qed

text \<open>
  The example of C3 as amended: nothing is cached, the token \<^verbatim>\<open>latest\<close> is a tag of the
  example registry, and \<^verbatim>\<open>/name@latest/lib/foo.js\<close> is redirected to version 2.0.0 with
  the file system untouched.
\<close>

theorem cache_directory_from_token_witness:
  "parsePackageURL exampleEnv (url (requestOf ''/name@latest/lib/foo.js'')) =
     Some \<lparr>packageName = ''name'', version = ''latest'', filename = ''/lib/foo.js'', search = []\<rparr>
   \<and> \<not> checkLocalCache emptyFS ''/tmp/name-latest''
   \<and> handleRequest 1 exampleEnv exampleSettings emptyFS (requestOf ''/name@latest/lib/foo.js'')
       = (SendRedirect ''/name@2.0.0/lib/foo.js'' 60, emptyFS)"
proof -
  let ?u = "\<lparr>packageName = ''name'', version = ''latest'', filename = ''/lib/foo.js'', search = []\<rparr>"
  let ?req = "requestOf ''/name@latest/lib/foo.js''"
  let ?versions = "[(''1.0.0'', \<lparr>dist_tarball = ''https://registry.npmjs.org/name/-/name-1.0.0.tgz''\<rparr>),
                   (''1.2.0'', \<lparr>dist_tarball = ''https://registry.npmjs.org/name/-/name-1.2.0.tgz''\<rparr>),
                   (''2.0.0'', \<lparr>dist_tarball = ''https://registry.npmjs.org/name/-/name-2.0.0.tgz''\<rparr>)]"
  let ?tags = "[(''latest'', ''2.0.0'')]"
  let ?info = "\<lparr>versions = Some ?versions, dist_tags = Some ?tags\<rparr>"
  let ?response = "\<lparr>status = 200, jsonData = Some ?info\<rparr>"
  have p: "parsePackageURL exampleEnv (url ?req) = Some ?u"
    by (simp add: exampleEnv_fields requestOf_def parse_latest_example)
  have h: "\<not> checkLocalCache emptyFS
               (joinPaths (TmpDir exampleEnv) (packageName ?u @ ''-'' @ version ?u))
          \<and> getPackageInfo exampleEnv (registryURL exampleSettings) (packageName ?u) = Inr ?response
          \<and> status ?response \<noteq> 404
          \<and> jsonData ?response = Some ?info \<and> versions ?info = Some ?versions
          \<and> dist_tags ?info = Some ?tags
          \<and> getProperty ?versions (version ?u) = Missing"
    by (simp add: not_cached_emptyFS exampleEnv_fields exampleRegistry_def getProperty_def
        ObjectPrototype_def)
  from cache_directory_from_token[of exampleEnv ?req emptyFS exampleSettings 1, rule_format,
      OF p, THEN conjunct2, THEN conjunct2, rule_format, OF h]
  have "handleRequest 1 exampleEnv exampleSettings emptyFS ?req
          = (SendRedirect ''/name@2.0.0/lib/foo.js'' 60, emptyFS)"
    by (simp add: baseUrl_requestOf exampleEnv_fields createPackageURL_spec_def
        exampleSettings_def)
  with p show ?thesis
    by (simp add: not_cached_emptyFS)
qed

text \<open>
  C3 as the spec states it fails: the token \<^verbatim>\<open>latest\<close> is a tag of the example registry
  and none of its versions, yet the gate is asked about \<^verbatim>\<open>/tmp/name-latest\<close>, the
  directory derived from the tag, and with a manifest there the file is served from it,
  with no resolution and no redirect.
\<close>

theorem cache_directory_from_token_counterexample:
  "parsePackageURL exampleEnv ''/name@latest/lib/foo.js'' =
     Some \<lparr>packageName = ''name'', version = ''latest'', filename = ''/lib/foo.js'', search = []\<rparr>
   \<and> checkLocalCache tagDirectoryFS ''/tmp/name-latest''
   \<and> handleRequest 1 exampleEnv exampleSettings tagDirectoryFS (requestOf ''/name@latest/lib/foo.js'')
       = (SendFile ''/tmp/name-latest/lib/foo.js'' OneYear, tagDirectoryFS)"
proof -
  have p: "parsePackageURL exampleEnv ''/name@latest/lib/foo.js'' =
     Some \<lparr>packageName = ''name'', version = ''latest'', filename = ''/lib/foo.js'', search = []\<rparr>"
    by (simp add: exampleEnv_fields parse_latest_example)
  have c: "checkLocalCache tagDirectoryFS ''/tmp/name-latest''"
    by (simp add: checkLocalCache_def joinPaths_latest_manifest tagDirectoryFS_def stat_tableFS
        aFile_def isFile_def)
  have r: "resolveFile tagDirectoryFS ''/tmp/name-latest/lib/foo.js'' False
             = Inr (Some ''/tmp/name-latest/lib/foo.js'')"
    by (simp add: resolveFile_chain tryExtension_def tagDirectoryFS_def stat_tableFS
        aFile_def isFile_def)
  have "handleRequest 1 exampleEnv exampleSettings tagDirectoryFS (requestOf ''/name@latest/lib/foo.js'')
       = (SendFile ''/tmp/name-latest/lib/foo.js'' OneYear, tagDirectoryFS)"
    using p c r
    by (simp add: handleRequest_def requestOf_def tarballDir_latest serveFile_def
        exampleSettings_def joinPaths_latest_file)
  with p c show ?thesis by simp
qed

text \<open>
  C8. The manifest of the cached package is \<^verbatim>\<open>{"main": "lib/foo"}\<close> and the request names
  the entry field \<^verbatim>\<open>toString\<close>, which the manifest does not have: the answer is not
  NotFound naming the field, since \<^verbatim>\<open>queryMain in packageConfig\<close> holds for the inherited
  name, and the inherited value reaches \<^verbatim>\<open>joinPaths\<close>, which throws. The same happens for
  a field the manifest has with a value that is not a string, as \<^verbatim>\<open>browser\<close> with an
  object: no path is resolved, \<^verbatim>\<open>joinPaths\<close> throws.
\<close>

theorem entry_field_not_a_path_throws:
  \<open>handleRequest 1 exampleEnv exampleSettings mainFS
      (requestWithMain ''/name@1.0.0?main=toString'' ''toString'')
     = (UncaughtTypeError, mainFS)
   \<and> handleRequest 1 exampleEnv exampleSettings browserFS
       (requestWithMain ''/name@1.0.0?main=browser'' ''browser'')
     = (UncaughtTypeError, browserFS)\<close>
proof -
  let ?u = "\<lparr>packageName = ''name'', version = ''1.0.0'', filename = [], search = ''?main=toString''\<rparr>"
  let ?v = "\<lparr>packageName = ''name'', version = ''1.0.0'', filename = [], search = ''?main=browser''\<rparr>"
  have c: "checkLocalCache mainFS ''/tmp/name-1.0.0''" "checkLocalCache browserFS ''/tmp/name-1.0.0''"
    by (simp_all add: checkLocalCache_def joinPaths_manifest mainFS_def browserFS_def
        stat_tableFS aFile_def isFile_def)
  have a: "serveFile fuel exampleEnv exampleSettings mainFS req ?u = (UncaughtTypeError, mainFS)"
    if "queryMain req = ''toString''" for fuel req
    using that
    by (simp add: serveFile_def exampleSettings_def joinPaths_manifest mainFS_def
        readFile_tableFS exampleEnv_parseJSON getProperty_def ObjectPrototype_def Let_def)
  have b: "serveFile fuel exampleEnv exampleSettings browserFS req ?v = (UncaughtTypeError, browserFS)"
    if "queryMain req = ''browser''" for fuel req
    using that
    by (simp add: serveFile_def exampleSettings_def joinPaths_manifest browserFS_def
        readFile_tableFS exampleEnv_parseJSON getProperty_def ObjectPrototype_def Let_def)
  let ?r = "requestWithMain ''/name@1.0.0?main=toString'' ''toString''"
  let ?r' = "requestWithMain ''/name@1.0.0?main=browser'' ''browser''"
  have q: "queryMain ?r = ''toString''" "queryMain ?r' = ''browser''"
    by (simp_all add: queryMain_def requestWithMain_def)
  have p: "parsePackageURL exampleEnv (url ?r) = Some ?u" "parsePackageURL exampleEnv (url ?r') = Some ?v"
    by (simp_all add: exampleEnv_fields requestWithMain_def parse_main_examples)
  have "handleRequest 1 exampleEnv exampleSettings mainFS ?r = serveFile 1 exampleEnv exampleSettings mainFS ?r ?u"
    by (rule handleRequest_cached[OF p(1)]) (simp add: c)
  moreover have "handleRequest 1 exampleEnv exampleSettings browserFS ?r'
      = serveFile 1 exampleEnv exampleSettings browserFS ?r' ?v"
    by (rule handleRequest_cached[OF p(2)]) (simp add: c)
  ultimately show ?thesis
    by (simp only: a[OF q(1)] b[OF q(2)] simp_thms)
qed

lemma parse_lib_example: "parsePackageURL_spec ''/name@1.0.0/lib'' =
  Some \<lparr>packageName = ''name'', version = ''1.0.0'', filename = ''/lib'', search = []\<rparr>"
  by (simp add: parsePackageURL_spec_def splitVersion_def Let_def)

lemma joinPaths_lib: "joinPaths ''/tmp/name-1.0.0'' ''/lib'' = ''/tmp/name-1.0.0/lib''"
  by (simp add: joinPaths_def normalize_def Let_def)

lemma cachedLibFS_cached: "checkLocalCache cachedLibFS ''/tmp/name-1.0.0''"
  by (simp add: checkLocalCache_def joinPaths_manifest cachedLibFS_def stat_tableFS
      aFile_def isFile_def)

lemma cachedLibFS_lib_not_resolved:
  "resolveFile cachedLibFS ''/tmp/name-1.0.0/lib'' False = Inr None"
  by (simp add: resolveFile_chain tryExtension_def cachedLibFS_def stat_tableFS
      aDirectory_def isFile_def ENOENT_def)

lemma serveFile_lib_redirect:
  assumes "url req = ''/name@1.0.0/lib''"
  shows "serveFile fuel exampleEnv exampleSettings cachedLibFS req
           \<lparr>packageName = ''name'', version = ''1.0.0'', filename = ''/lib'', search = []\<rparr>
         = (SendRedirect (baseUrl req @ ''/'') 60, cachedLibFS)"
  using assms
  by (simp add: serveFile_def serveIndex_def exampleSettings_def joinPaths_lib
      cachedLibFS_lib_not_resolved)
    (simp add: cachedLibFS_def stat_tableFS aDirectory_def isDirectory_def)

text \<open>
  What the handler does for a directory URL without trailing slash, in general: it
  redirects (no tree is built), and the target is \<open>baseUrl req @ ''/''\<close>.
\<close>

lemma directory_without_slash_redirects:
  assumes "filename u \<noteq> bowerBundle s" and "filename u \<noteq> []" and "autoIndex s"
    and "resolveFile fs (joinPaths (tarballDir e u) (filename u)) False = Inr None"
    and "existsAsDirectory fs (joinPaths (tarballDir e u) (filename u))"
    and "url req = [] \<or> last (url req) \<noteq> CHR ''/''"
  shows "serveFile fuel e s fs req u = (SendRedirect (baseUrl req @ ''/'') (redirectTTL s), fs)"
  using assms
  by (auto simp: serveFile_def serveIndex_def existsAsDirectory_def Let_def split: sum.splits)

lemma exampleEnv_parse: "parsePackageURL exampleEnv = parsePackageURL_spec"
  by (simp add: exampleEnv_def)

text \<open>
  C1. The URL \<^verbatim>\<open>/name@1.0.0/lib\<close> names a directory of a cached package and has no
  trailing slash, and the auto index is on. The handler redirects, but to
  \<^verbatim>\<open>baseUrl + '/'\<close>, which is the part of the original URL before the request URL: the
  package and the filename are lost. The target is \<^verbatim>\<open>/\<close> without a mount prefix and
  \<^verbatim>\<open>/container/task/\<close> with one, not \<^verbatim>\<open>/name@1.0.0/lib/\<close>.
\<close>

theorem directory_redirect_target:
  "handleRequest 1 exampleEnv exampleSettings cachedLibFS (requestOf ''/name@1.0.0/lib'')
     = (SendRedirect ''/'' 60, cachedLibFS)
   \<and> handleRequest 1 exampleEnv exampleSettings cachedLibFS
       \<lparr>url = ''/name@1.0.0/lib'', originalUrl = ''/container/task/name@1.0.0/lib'', query = None\<rparr>
     = (SendRedirect ''/container/task/'' 60, cachedLibFS)"
proof -
  let ?u = "\<lparr>packageName = ''name'', version = ''1.0.0'', filename = ''/lib'', search = []\<rparr>"
  have "handleRequest 1 exampleEnv exampleSettings cachedLibFS req
          = (SendRedirect (baseUrl req @ ''/'') 60, cachedLibFS)"
    if "url req = ''/name@1.0.0/lib''" for req
    using that cachedLibFS_cached
    by (simp add: handleRequest_def exampleEnv_parse parse_lib_example serveFile_lib_redirect)
  from this[of "requestOf ''/name@1.0.0/lib''"]
    this[of "\<lparr>url = ''/name@1.0.0/lib'', originalUrl = ''/container/task/name@1.0.0/lib'', query = None\<rparr>"]
  show ?thesis
    by (simp add: requestOf_def baseUrl_def slice0_def Let_def)
qed

section \<open>Properties of the tree builder\<close>

lemma promiseAll_Resolved: "promiseAll (map (\<lambda>x. Resolved (f x)) xs) = Resolved (map f xs)"
  by (induction xs) simp_all

lemma promiseAll_getStats:
  "map (\<lambda>file. lstat fs (joinPaths dir file)) files = map Inr statsArray \<Longrightarrow>
   promiseAll (map (\<lambda>file. getStats fs (joinPaths dir file)) files) = Resolved statsArray"
proof (induction files arbitrary: statsArray)
  case Nil
  then show ?case by simp
next
  case (Cons name names)
  then obtain st sts where "statsArray = st # sts" by (cases statsArray) auto
  with Cons show ?case by (simp add: getStats_def)
qed

lemma resolveEntry_depth_zero:
  "resolveEntry getEntries' e baseDir pathname stats (Finite 0) =
     Resolved (Entry pathname (toISOString e (mtime stats)) (getContentType e pathname)
                 (size_bytes stats) (getType stats)
                 (if isDirectory stats then Null else Absent))"
  by (simp add: resolveEntry_def resolveDirectory_def then_promise_def)

lemma joinPaths_lib_entries:
  "joinPaths ''/tmp/name-1.0.0/lib'' ''a.js'' = ''/tmp/name-1.0.0/lib/a.js''"
  "joinPaths ''/tmp/name-1.0.0/lib'' ''sub'' = ''/tmp/name-1.0.0/lib/sub''"
  "joinPaths ''/lib'' ''a.js'' = ''/lib/a.js''"
  "joinPaths ''/lib'' ''sub'' = ''/lib/sub''"
  by (simp_all add: joinPaths_def normalize_def Let_def)

lemma lstat_tableFS:
  "lstat (tableFS nodes listings contents) p =
     (case map_of nodes p of None \<Rightarrow> Inl ENOENT | Some r \<Rightarrow> r)"
  by (simp add: tableFS_def)

lemma readdir_tableFS:
  "readdir (tableFS nodes listings contents) p =
     (case map_of listings p of None \<Rightarrow> Inl ENOENT | Some names \<Rightarrow> Inr names)"
  by (simp add: tableFS_def)

lemma exampleEnv_tree:
  "toISOString exampleEnv t = ''1970-01-01T00:00:00.000Z''"
  "getContentType exampleEnv p = ''text/plain''"
  by (simp_all add: exampleEnv_def)

text \<open>
  C2, as the code has it. With \<^verbatim>\<open>maximumDepth = 0\<close> the builder still reads the
  directory it is given, and answers with the sequence of the entries of its immediate
  children, in listing order (one unit of fuel is enough). An entry that is a directory
  has the field \<^verbatim>\<open>children\<close> with the value \<^verbatim>\<open>null\<close>; any other entry has no such field.
  A directory that is expanded (depth above zero) and empty has the empty sequence.
\<close>

theorem tree_depth_zero:
  "(\<forall>files statsArray.
      readdir fs (joinPaths baseDir dir) = Inr files
      \<and> map (\<lambda>file. lstat fs (joinPaths (joinPaths baseDir dir) file)) files = map Inr statsArray
    \<longrightarrow> generateDirectoryTree (Suc fuel) e fs baseDir dir (Finite 0) =
          Resolved
            (map (\<lambda>(file, stats).
                    Entry (joinPaths dir file) (toISOString e (mtime stats))
                      (getContentType e (joinPaths dir file)) (size_bytes stats) (getType stats)
                      (if isDirectory stats then Null else Absent))
               (zip files statsArray)))
   \<and> (\<forall>pathname stats n.
        isDirectory stats \<and> 0 < n \<and> readdir fs (joinPaths baseDir pathname) = Inr []
      \<longrightarrow> resolveEntry (getEntries (Suc fuel) e fs) e baseDir pathname stats (Finite n) =
            Resolved (Entry pathname (toISOString e (mtime stats)) (getContentType e pathname)
                        (size_bytes stats) (getType stats) (Children [])))"
proof (intro conjI allI impI)
  fix pathname stats and n :: int
  assume "isDirectory stats \<and> 0 < n \<and> readdir fs (joinPaths baseDir pathname) = Inr []"
  then show "resolveEntry (getEntries (Suc fuel) e fs) e baseDir pathname stats (Finite n) =
            Resolved (Entry pathname (toISOString e (mtime stats)) (getContentType e pathname)
                        (size_bytes stats) (getType stats) (Children []))"
    by (simp add: resolveEntry_def resolveDirectory_def then_promise_def Let_def)
next
  fix files statsArray
  assume h: "readdir fs (joinPaths baseDir dir) = Inr files
      \<and> map (\<lambda>file. lstat fs (joinPaths (joinPaths baseDir dir) file)) files = map Inr statsArray"
  have "(\<lambda>(file, stats). resolveEntry (getEntries fuel e fs) e baseDir (joinPaths dir file)
                           stats (Finite 0))
      = (\<lambda>x. Resolved ((\<lambda>(file, stats).
                    Entry (joinPaths dir file) (toISOString e (mtime stats))
                      (getContentType e (joinPaths dir file)) (size_bytes stats) (getType stats)
                      (if isDirectory stats then Null else Absent)) x))"
    by (auto simp: resolveEntry_depth_zero)
  with h show "generateDirectoryTree (Suc fuel) e fs baseDir dir (Finite 0) =
          Resolved
            (map (\<lambda>(file, stats).
                    Entry (joinPaths dir file) (toISOString e (mtime stats))
                      (getContentType e (joinPaths dir file)) (size_bytes stats) (getType stats)
                      (if isDirectory stats then Null else Absent))
               (zip files statsArray))"
    by (simp add: generateDirectoryTree_def Let_def promiseAll_getStats then_promise_def
        promiseAll_Resolved)
qed

text \<open>
  The example of C2 as amended: \<^verbatim>\<open>/lib\<close> holds the file \<^verbatim>\<open>a.js\<close> and the directory
  \<^verbatim>\<open>sub\<close>.
\<close>

theorem tree_depth_zero_witness:
  "generateDirectoryTree 1 exampleEnv cachedLibFS ''/tmp/name-1.0.0'' ''/lib'' (Finite 0) =
     Resolved
       [Entry ''/lib/a.js'' ''1970-01-01T00:00:00.000Z'' ''text/plain'' 1 ''file'' Absent,
        Entry ''/lib/sub'' ''1970-01-01T00:00:00.000Z'' ''text/plain'' 0 ''directory'' Null]"
proof -
  have h: "readdir cachedLibFS (joinPaths ''/tmp/name-1.0.0'' ''/lib'') = Inr [''a.js'', ''sub'']
      \<and> map (\<lambda>file. lstat cachedLibFS (joinPaths (joinPaths ''/tmp/name-1.0.0'' ''/lib'') file))
            [''a.js'', ''sub'']
          = map Inr [\<lparr>kind = RegularFile, mtime = 0, size_bytes = 1\<rparr>,
                     \<lparr>kind = Directory, mtime = 0, size_bytes = 0\<rparr>]"
    by (simp add: joinPaths_lib joinPaths_lib_entries cachedLibFS_def readdir_tableFS lstat_tableFS
        aFile_def aDirectory_def)
  from tree_depth_zero[of cachedLibFS "''/tmp/name-1.0.0''" "''/lib''" 0 exampleEnv,
      THEN conjunct1, rule_format, OF h]
  show ?thesis
    by (simp add: joinPaths_lib_entries exampleEnv_tree getType_def isFile_def isDirectory_def)
qed

text \<open>
  C2 as the spec states it fails: for the directory \<^verbatim>\<open>/lib\<close>, which is not empty, the
  answer at depth zero is not one entry for \<^verbatim>\<open>/lib\<close> but the two entries of its
  children, and the entry of the directory \<^verbatim>\<open>sub\<close> (not empty either) has \<^verbatim>\<open>children\<close>
  present with the value \<^verbatim>\<open>null\<close>, not absent.
\<close>

theorem tree_depth_zero_counterexample:
  "readdir cachedLibFS ''/tmp/name-1.0.0/lib'' = Inr [''a.js'', ''sub'']
   \<and> readdir cachedLibFS ''/tmp/name-1.0.0/lib/sub'' = Inr [''b.js'']
   \<and> generateDirectoryTree 1 exampleEnv cachedLibFS ''/tmp/name-1.0.0'' ''/lib'' (Finite 0) =
     Resolved
       [Entry ''/lib/a.js'' ''1970-01-01T00:00:00.000Z'' ''text/plain'' 1 ''file'' Absent,
        Entry ''/lib/sub'' ''1970-01-01T00:00:00.000Z'' ''text/plain'' 0 ''directory'' Null]
   \<and> children (Entry ''/lib/sub'' ''1970-01-01T00:00:00.000Z'' ''text/plain'' 0 ''directory'' Null)
       \<noteq> Absent"
  by (simp add: generateDirectoryTree_def Let_def joinPaths_lib joinPaths_lib_entries
      cachedLibFS_def readdir_tableFS lstat_tableFS aFile_def aDirectory_def getStats_def
      then_promise_def resolveEntry_def resolveDirectory_def exampleEnv_tree getType_def
      isFile_def isDirectory_def)

end
